theory Spec2Isabelle
  imports Main "HOL-Library.AList" "HOL-Library.Sublist"
begin

section \<open>JavaScript values\<close>

text \<open>
  The module \<^verbatim>\<open>apigeeruntime.js\<close> handles decoded JSON, parsed query strings and
  caller options, all of them untyped JavaScript values. A value is one of the
  JSON shapes or \<^verbatim>\<open>undefined\<close>. A number is a double whose value is an integer, or
  \<^verbatim>\<open>NaN\<close>, or an infinity (\<open>JInfinity True\<close> is the negative one); fractions are
  outside the model. An array carries its elements and the named properties
  assigned to it; an object is the list of its own properties in insertion
  order.
\<close>

datatype js =
    JUndefined
  | JNull
  | JBool bool
  | JNum int
  | JNaN
  | JInfinity bool
  | JStr string
  | JArr "js list" "(string \<times> js) list"
  | JObj "(string \<times> js) list"

text \<open>The condition of an \<^verbatim>\<open>if (v)\<close>.\<close>

fun truthy :: "js \<Rightarrow> bool" where
  "truthy JUndefined = False"
| "truthy JNull = False"
| "truthy (JBool b) = b"
| "truthy (JNum n) = (n \<noteq> 0)"
| "truthy JNaN = False"
| "truthy (JInfinity neg) = True"
| "truthy (JStr s) = (s \<noteq> [])"
| "truthy (JArr xs ps) = True"
| "truthy (JObj ps) = True"

section \<open>Library functions\<close>

text \<open>
  The functions of Node.js that the module calls and that are not part of it:
  \<^verbatim>\<open>JSON.parse\<close> (\<open>None\<close> when it throws a SyntaxError), \<^verbatim>\<open>JSON.stringify\<close>,
  \<^verbatim>\<open>querystring.parse\<close> (a field that occurs once is a string, a repeated field an
  array), \<^verbatim>\<open>querystring.stringify\<close>, the \<^verbatim>\<open>protocol\<close> of \<^verbatim>\<open>url.parse\<close> (a string such
  as \<^verbatim>\<open>http:\<close>, or \<^verbatim>\<open>null\<close>) and the base64 encoding of a \<^verbatim>\<open>Buffer\<close>. With them
  come two functions of the engine on numbers that are not safe integers, that
  is, of magnitude \<open>2 ^ 53\<close> or more: \<open>nearest_double\<close> gives the value of the double
  that an integer is rounded to (\<open>None\<close> when it rounds to infinity), and
  \<open>Number_toString\<close> gives the text of such a number, which is not its row of
  digits. Every function of the module takes them all as a parameter, so every
  theorem holds for all of them.
\<close>

record node =
  JSON_parse :: "string \<Rightarrow> js option"
  JSON_stringify :: "js \<Rightarrow> string"
  querystring_parse :: "string \<Rightarrow> (string \<times> js) list"
  querystring_stringify :: "(string \<times> js) list \<Rightarrow> string"
  url_parse_protocol :: "string \<Rightarrow> js"
  base64 :: "string \<Rightarrow> string"
  nearest_double :: "int \<Rightarrow> int option"
  Number_toString :: "int \<Rightarrow> string"

section \<open>Conversions and properties\<close>

definition digit_char :: "nat \<Rightarrow> char" where
  "digit_char n = ''0123456789'' ! (n mod 10)"

fun string_of_nat :: "nat \<Rightarrow> string" where
  "string_of_nat n =
     (if n < 10 then [digit_char n] else string_of_nat (n div 10) @ [digit_char n])"

definition string_of_int :: "int \<Rightarrow> string" where
  "string_of_int i = (if i < 0 then CHR ''-'' # string_of_nat (nat (- i)) else string_of_nat (nat i))"

fun join :: "string \<Rightarrow> string list \<Rightarrow> string" where
  "join sep [] = []"
| "join sep [x] = x"
| "join sep (x # y # ys) = x @ sep @ join sep (y # ys)"

text \<open>
  The conversion to a string that \<^verbatim>\<open>+\<close>, \<^verbatim>\<open>parseInt\<close>, \<^verbatim>\<open>JSON.parse\<close> and
  \<^verbatim>\<open>RegExp.test\<close> apply to an argument that is not a string. A safe integer is
  written as its digits; a larger number is written by the engine, with rounded
  digits and, from \<open>10 ^ 21\<close> on, an exponent.
\<close>

fun ToString :: "node \<Rightarrow> js \<Rightarrow> string" where
  "ToString nd JUndefined = ''undefined''"
| "ToString nd JNull = ''null''"
| "ToString nd (JBool b) = (if b then ''true'' else ''false'')"
| "ToString nd (JNum n) = (if \<bar>n\<bar> < 2 ^ 53 then string_of_int n else Number_toString nd n)"
| "ToString nd JNaN = ''NaN''"
| "ToString nd (JInfinity neg) = (if neg then ''-Infinity'' else ''Infinity'')"
| "ToString nd (JStr s) = s"
| "ToString nd (JArr xs ps) =
     join '','' (map (\<lambda>x. if x = JUndefined \<or> x = JNull then [] else ToString nd x) xs)"
| "ToString nd (JObj ps) = ''[object Object]''"

text \<open>
  Reading a property: \<^verbatim>\<open>v.k\<close>. It throws a TypeError (\<open>None\<close>) on \<^verbatim>\<open>null\<close> and
  \<^verbatim>\<open>undefined\<close>; on a primitive it gives \<^verbatim>\<open>undefined\<close> for every name the module
  reads (\<^verbatim>\<open>ErrorCode\<close>, \<^verbatim>\<open>Error\<close>, \<^verbatim>\<open>expires_in\<close>, \<^verbatim>\<open>attributes\<close>, \<^verbatim>\<open>scope\<close>).
\<close>

definition lookup :: "(string \<times> js) list \<Rightarrow> string \<Rightarrow> js" where
  "lookup ps k = (case map_of ps k of None \<Rightarrow> JUndefined | Some v \<Rightarrow> v)"

fun getProp :: "js \<Rightarrow> string \<Rightarrow> js option" where
  "getProp JUndefined k = None"
| "getProp JNull k = None"
| "getProp (JObj ps) k = Some (lookup ps k)"
| "getProp (JArr xs ps) k = Some (lookup ps k)"
| "getProp v k = Some JUndefined"

text \<open>
  Assigning a property: \<^verbatim>\<open>v.k = x\<close>. The file is in strict mode, where the
  assignment throws a TypeError (\<open>None\<close>) on every primitive.
\<close>

fun setProp :: "js \<Rightarrow> string \<Rightarrow> js \<Rightarrow> js option" where
  "setProp (JObj ps) k x = Some (JObj (AList.update k x ps))"
| "setProp (JArr xs ps) k x = Some (JArr xs (AList.update k x ps))"
| "setProp v k x = None"

text \<open>
  \<^verbatim>\<open>parseInt(v, 10)\<close>: leading white space, an optional sign, the longest run of
  digits. The result is a double: the integer itself below \<open>2 ^ 53\<close>, an infinity from
  \<open>2 ^ 1024\<close> on, and between the two the double that the engine rounds to.
\<close>

definition is_space :: "char \<Rightarrow> bool" where
  "is_space c = (c \<in> {CHR 0x09, CHR 0x0A, CHR 0x0B, CHR 0x0C, CHR 0x0D, CHR '' ''})"

definition is_digit :: "char \<Rightarrow> bool" where
  "is_digit c = (c \<in> set ''0123456789'')"

definition digit_val :: "char \<Rightarrow> nat" where
  "digit_val c = length (takeWhile (\<lambda>d. d \<noteq> c) ''0123456789'')"

definition digits_val :: "string \<Rightarrow> int" where
  "digits_val ds = foldl (\<lambda>acc c. 10 * acc + int (digit_val c)) 0 ds"

text \<open>
  The number for the integer \<open>n\<close> that a run of digits denotes, with the sign read
  before it.
\<close>

definition to_Number :: "node \<Rightarrow> bool \<Rightarrow> int \<Rightarrow> js" where
  "to_Number nd neg n =
     (if n < 2 ^ 53 then JNum (if neg then - n else n)
      else if n \<ge> 2 ^ 1024 then JInfinity neg
      else (case nearest_double nd n of
              None \<Rightarrow> JInfinity neg
            | Some m \<Rightarrow> JNum (if neg then - m else m)))"

definition parseInt :: "node \<Rightarrow> js \<Rightarrow> js" where
  "parseInt nd v =
     (let s = dropWhile is_space (ToString nd v);
          neg = (case s of c # cs \<Rightarrow> c = CHR ''-'' | [] \<Rightarrow> False);
          t = (case s of c # cs \<Rightarrow> if c = CHR ''-'' \<or> c = CHR ''+'' then cs else s | [] \<Rightarrow> s);
          ds = takeWhile is_digit t
      in if ds = [] then JNaN else to_Number nd neg (digits_val ds))"

text \<open>\<^verbatim>\<open>s.split(sep)\<close> for a separator of one character.\<close>

fun split :: "char \<Rightarrow> string \<Rightarrow> string list" where
  "split sep [] = [[]]"
| "split sep (c # cs) =
     (if c = sep then [] # split sep cs
      else (case split sep cs of w # ws \<Rightarrow> (c # w) # ws | [] \<Rightarrow> [[c]]))"

section \<open>Errors and responses\<close>

text \<open>
  An \<^verbatim>\<open>Error\<close> object with the properties the module assigns; a property never
  assigned reads \<^verbatim>\<open>undefined\<close>.
\<close>

record jserror =
  message :: js
  err_statusCode :: js
  code :: js
  errorCode :: js

definition new_Error :: "string \<Rightarrow> jserror" where
  "new_Error msg = \<lparr>message = JStr msg, err_statusCode = JUndefined, code = JUndefined,
     errorCode = JUndefined\<rparr>"

text \<open>
  A response at its \<^verbatim>\<open>end\<close> event: \<open>respData\<close> is the body that \<^verbatim>\<open>readResponse\<close> has
  accumulated over the \<^verbatim>\<open>readable\<close> events.
\<close>

record response =
  statusCode :: int
  headers :: "(string \<times> string) list"
  respData :: string

text \<open>
  What becomes of the completion callback \<^verbatim>\<open>cb(err, result)\<close>: it is called with
  the two slots (an absent error is \<open>None\<close>, an absent result \<open>JUndefined\<close>), or the
  handler throws before calling it, or the handler returns without calling it.
\<close>

datatype completion = Called "jserror option" js | Uncaught | NotCalled

section \<open>The token-response interpreter\<close>

text \<open>
  The options of a call, each an arbitrary value (\<^verbatim>\<open>undefined\<close> when not given).
  The option \<^verbatim>\<open>code\<close> is the field \<open>authorization_code\<close>, since \<open>code\<close> is a field of the
  error; \<open>request\<close> is the caller's request context, \<open>None\<close> when there is none.
\<close>

record options =
  clientId :: js
  clientSecret :: js
  scope :: js
  tokenLifetime :: js
  attributes :: js
  username :: js
  password :: js
  authorization_code :: js
  redirectUri :: js
  state :: js
  refreshToken :: js
  token :: js
  tokenTypeHint :: js
  grantType :: js
  request :: "(string \<rightharpoonup> string) option"

text \<open>The body of the \<^verbatim>\<open>try\<close> block of \<^verbatim>\<open>requestComplete\<close>; \<open>None\<close> when it throws.\<close>

definition requestComplete_try :: "node \<Rightarrow> string \<Rightarrow> options \<Rightarrow> js option" where
  "requestComplete_try nd data opts =
     (case JSON_parse nd data of None \<Rightarrow> None | Some json \<Rightarrow>
      (case getProp json ''expires_in'' of None \<Rightarrow> None | Some e \<Rightarrow>
       (case (if truthy e then setProp json ''expires_in'' (parseInt nd e) else Some json) of
          None \<Rightarrow> None | Some json1 \<Rightarrow>
        (case (if truthy (grantType opts) then setProp json1 ''token_type'' (grantType opts)
               else Some json1) of
           None \<Rightarrow> None | Some json2 \<Rightarrow>
         (case getProp json2 ''attributes'' of None \<Rightarrow> None | Some a \<Rightarrow>
            if truthy a then
              (case JSON_parse nd (ToString nd a) of None \<Rightarrow> None
               | Some v \<Rightarrow> setProp json2 ''attributes'' v)
            else Some json2)))))"

text \<open>The \<^verbatim>\<open>end\<close> handler of \<^verbatim>\<open>requestComplete\<close>.\<close>

definition requestComplete :: "node \<Rightarrow> response \<Rightarrow> options \<Rightarrow> completion" where
  "requestComplete nd resp opts =
     (if statusCode resp \<ge> 300 then
        (let err = (new_Error ''Error on HTTP request'')\<lparr>err_statusCode := JNum (statusCode resp)\<rparr>
         in if statusCode resp = 400 \<or> statusCode resp = 401 then
              (case JSON_parse nd (respData resp) of None \<Rightarrow> Uncaught | Some ret \<Rightarrow>
               (case getProp ret ''ErrorCode'' of None \<Rightarrow> Uncaught | Some ec \<Rightarrow>
                  if ec \<noteq> JNull then
                    (case getProp ret ''Error'' of None \<Rightarrow> Uncaught
                     | Some m \<Rightarrow> Called (Some (err\<lparr>code := ec, message := m\<rparr>)) JUndefined)
                  else Called (Some err) JUndefined))
            else Called (Some (err\<lparr>message := JStr (respData resp)\<rparr>)) JUndefined)
      else
        (case requestComplete_try nd (respData resp) opts of
           None \<Rightarrow> Called None JUndefined
         | Some json \<Rightarrow> Called None json))"

text \<open>The \<^verbatim>\<open>end\<close> handler of \<^verbatim>\<open>getRequestComplete\<close>.\<close>

definition getRequestComplete :: "response \<Rightarrow> options \<Rightarrow> completion" where
  "getRequestComplete resp opts =
     (if statusCode resp \<noteq> 302 then
        Called (Some ((new_Error ''Error on HTTP request'')
          \<lparr>err_statusCode := JNum (statusCode resp), message := JStr (respData resp)\<rparr>)) JUndefined
      else Called None (case map_of (headers resp) ''location'' of
                          None \<Rightarrow> JUndefined | Some l \<Rightarrow> JStr l))"

section \<open>The verify-response interpreter\<close>

text \<open>\<^verbatim>\<open>_.difference(xs, ys)\<close> of underscore: the values of \<open>xs\<close> that are not in \<open>ys\<close>.\<close>

definition difference :: "'a list \<Rightarrow> 'a list \<Rightarrow> 'a list" where
  "difference xs ys = filter (\<lambda>x. x \<notin> set ys) xs"

text \<open>
  \<^verbatim>\<open>v.split(' ')\<close> on an arbitrary value: only a string has the method, on anything
  else the call throws a TypeError (\<open>None\<close>).
\<close>

fun split_method :: "js \<Rightarrow> js list option" where
  "split_method (JStr s) = Some (map JStr (split CHR '' '' s))"
| "split_method v = None"

fun isArray :: "js \<Rightarrow> bool" where
  "isArray (JArr xs ps) = True"
| "isArray v = False"

fun elements :: "js \<Rightarrow> js list" where
  "elements (JArr xs ps) = xs"
| "elements v = []"

text \<open>Calling \<^verbatim>\<open>cb(err, result)\<close> where \<^verbatim>\<open>cb\<close> may be \<^verbatim>\<open>undefined\<close>.\<close>

definition call :: "bool \<Rightarrow> jserror option \<Rightarrow> js \<Rightarrow> completion" where
  "call has_cb err result = (if has_cb then Called err result else Uncaught)"

text \<open>The \<^verbatim>\<open>end\<close> handler of \<^verbatim>\<open>verifyRequestComplete\<close>.\<close>

definition verifyRequestComplete :: "node \<Rightarrow> response \<Rightarrow> js \<Rightarrow> bool \<Rightarrow> completion" where
  "verifyRequestComplete nd resp requiredScopes has_cb =
     (if statusCode resp \<noteq> 200 then
        call has_cb (Some ((new_Error ''Error on HTTP request'')
          \<lparr>err_statusCode := JNum (statusCode resp), message := JStr (respData resp)\<rparr>)) JUndefined
      else if has_cb then
        (let parsed = querystring_parse nd (respData resp) in
         (case (if \<not> isArray requiredScopes then
                  (if truthy requiredScopes then split_method requiredScopes else Some [])
                else Some (elements requiredScopes)) of
            None \<Rightarrow> Uncaught
          | Some required \<Rightarrow>
         (case (if truthy (lookup parsed ''scope'') then split_method (lookup parsed ''scope'')
                else Some []) of
            None \<Rightarrow> Uncaught
          | Some grantedScopes \<Rightarrow>
              if length (difference required grantedScopes) > 0 then
                Called (Some ((new_Error ''invalid_scope'')\<lparr>errorCode := JStr ''invalid_scope''\<rparr>))
                  JUndefined
              else if truthy (lookup parsed ''attributes'') then
                (case JSON_parse nd (ToString nd (lookup parsed ''attributes'')) of
                   None \<Rightarrow> Uncaught
                 | Some v \<Rightarrow> Called None (JObj (AList.update ''attributes'' v parsed)))
              else Called None (JObj parsed))))
      else NotCalled)"

section \<open>Context variable propagation\<close>

text \<open>
  The request context holds the flow variables; \<^verbatim>\<open>apigee.setVariable(req, n, v)\<close>
  stores \<open>v\<close> under \<open>n\<close>. The loop runs over the entries of \<^verbatim>\<open>resp.headers\<close>, one per
  header name.
\<close>

fun setFlowVariables_loop :: "(string \<times> string) list \<Rightarrow> (string \<rightharpoonup> string) \<Rightarrow> (string \<rightharpoonup> string)" where
  "setFlowVariables_loop [] req = req"
| "setFlowVariables_loop ((key, v) # hs) req =
     setFlowVariables_loop hs
       (if prefix ''x-v.'' key then
          (let varName = drop 4 key in if length v \<noteq> 0 then req(varName \<mapsto> v) else req)
        else req)"

definition setFlowVariables :: "(string \<rightharpoonup> string) option \<Rightarrow> response \<Rightarrow> (string \<rightharpoonup> string) option" where
  "setFlowVariables req resp =
     (case req of None \<Rightarrow> None | Some vars \<Rightarrow> Some (setFlowVariables_loop (headers resp) vars))"

section \<open>The dispatcher\<close>

record spi =
  uri :: string
  key :: string

record request =
  href :: string
  req_method :: string
  req_headers :: "(string \<times> js) list"
  req_body :: "string option"

text \<open>
  What the transport does with an issued request: the request emits \<^verbatim>\<open>error\<close>, or a
  response arrives and emits \<^verbatim>\<open>error\<close>, or a response arrives and ends.
\<close>

datatype reply = ReqError jserror | RespError response jserror | RespEnd response

text \<open>
  The observable outcome of one operation: the request handed to the transport
  (\<open>None\<close> when none is issued), the caller's request context afterwards, and what
  became of the completion callback.
\<close>

record run =
  sent :: "request option"
  req_context :: "(string \<rightharpoonup> string) option"
  callback :: completion

text \<open>
  The wrapper that \<^verbatim>\<open>makeRequest\<close> and \<^verbatim>\<open>makeGetRequest\<close> put around the callback
  \<open>cb\<close>: when the interpreter calls it, it publishes the flow variables and then
  passes its arguments on to \<open>cb\<close>. When the handler throws instead, the wrapper
  never runs.
\<close>

definition deliver :: "request \<Rightarrow> options \<Rightarrow> response \<Rightarrow> (jserror option \<Rightarrow> js \<Rightarrow> completion) \<Rightarrow> completion \<Rightarrow> run" where
  "deliver r opts resp cb c =
     (case c of
        Called err result \<Rightarrow>
          \<lparr>sent = Some r, req_context = setFlowVariables (request opts) resp, callback = cb err result\<rparr>
      | Uncaught \<Rightarrow> \<lparr>sent = Some r, req_context = request opts, callback = Uncaught\<rparr>
      | NotCalled \<Rightarrow> \<lparr>sent = Some r, req_context = request opts, callback = NotCalled\<rparr>)"

text \<open>
  \<^verbatim>\<open>makeRequest(self, verb, uriPath, body, options, cb)\<close> with the reply of the
  transport as a last argument. Every operation passes its options and a
  callback, so the provision for a call that passes the callback in place of the
  options is not part of the model; nor is the debug output.
\<close>

definition makeRequest ::
  "node \<Rightarrow> spi \<Rightarrow> string \<Rightarrow> string \<Rightarrow> string \<Rightarrow> options \<Rightarrow> (jserror option \<Rightarrow> js \<Rightarrow> completion) \<Rightarrow> reply \<Rightarrow> run" where
  "makeRequest nd self verb uriPath body opts cb rep =
     (let finalUri = uri self @ uriPath;
          h0 = [(''Authorization'', JStr (''Basic '' @
                  base64 nd (ToString nd (clientId opts) @ '':'' @ ToString nd (clientSecret opts))))];
          h1 = AList.update ''x-DNA-Api-Key'' (JStr (key self)) h0;
          h2 = (if truthy (tokenLifetime opts)
                then AList.update ''x-DNA-Token-Lifetime'' (tokenLifetime opts) h1 else h1);
          h3 = (if truthy (attributes opts)
                then AList.update ''x-DNA-Token-Attributes''
                       (JStr (JSON_stringify nd (attributes opts))) h2
                else h2);
          h4 = (if body \<noteq> []
                then AList.update ''Content-Type'' (JStr ''application/x-www-form-urlencoded'') h3
                else h3);
          r = \<lparr>href = finalUri, req_method = verb, req_headers = h4,
               req_body = (if body \<noteq> [] then Some body else None)\<rparr>;
          protocol = url_parse_protocol nd finalUri
      in if protocol = JStr ''http:'' \<or> protocol = JStr ''https:'' then
           (case rep of
              ReqError err \<Rightarrow>
                \<lparr>sent = Some r, req_context = request opts, callback = cb (Some err) JUndefined\<rparr>
            | RespError resp err \<Rightarrow> deliver r opts resp cb (Called (Some err) JUndefined)
            | RespEnd resp \<Rightarrow> deliver r opts resp cb (requestComplete nd resp opts))
         else
           \<lparr>sent = None, req_context = request opts,
            callback = cb (Some (new_Error (''Unsupported protocol '' @ ToString nd protocol))) JUndefined\<rparr>)"

definition makeGetRequest ::
  "node \<Rightarrow> spi \<Rightarrow> string \<Rightarrow> string \<Rightarrow> options \<Rightarrow> (jserror option \<Rightarrow> js \<Rightarrow> completion) \<Rightarrow> reply \<Rightarrow> run" where
  "makeGetRequest nd self uriPath qs opts cb rep =
     (let finalUri = uri self @ uriPath @ ''?'' @ qs;
          r = \<lparr>href = finalUri, req_method = ''GET'',
               req_headers = [(''x-DNA-Api-Key'', JStr (key self))], req_body = None\<rparr>;
          protocol = url_parse_protocol nd finalUri
      in if protocol = JStr ''http:'' \<or> protocol = JStr ''https:'' then
           (case rep of
              ReqError err \<Rightarrow>
                \<lparr>sent = Some r, req_context = request opts, callback = cb (Some err) JUndefined\<rparr>
            | RespError resp err \<Rightarrow> deliver r opts resp cb (Called (Some err) JUndefined)
            | RespEnd resp \<Rightarrow> deliver r opts resp cb (getRequestComplete resp opts))
         else
           \<lparr>sent = None, req_context = request opts,
            callback = cb (Some (new_Error (''Unsupported protocol '' @ ToString nd protocol))) JUndefined\<rparr>)"

text \<open>
  \<^verbatim>\<open>verifyToken(token, requiredScopes, cb)\<close>; \<open>has_cb\<close> says whether \<^verbatim>\<open>cb\<close> was passed.
  The operation has no request context.
\<close>

definition verifyToken :: "node \<Rightarrow> spi \<Rightarrow> js \<Rightarrow> js \<Rightarrow> bool \<Rightarrow> reply \<Rightarrow> run" where
  "verifyToken nd self tok requiredScopes has_cb rep =
     (let urlString = uri self @ ''/tokentypes/all/verify'';
          urlString = (if truthy requiredScopes
                       then urlString @ ''?'' @ querystring_stringify nd [(''scope'', requiredScopes)]
                       else urlString);
          r = \<lparr>href = urlString, req_method = ''GET'',
               req_headers = AList.update ''x-DNA-Api-Key'' (JStr (key self))
                 [(''Authorization'', JStr (''Bearer '' @ ToString nd tok))],
               req_body = None\<rparr>;
          protocol = url_parse_protocol nd urlString
      in if protocol = JStr ''http:'' \<or> protocol = JStr ''https:'' then
           (case rep of
              ReqError err \<Rightarrow>
                \<lparr>sent = Some r, req_context = None, callback = call has_cb (Some err) JUndefined\<rparr>
            | RespError resp err \<Rightarrow>
                \<lparr>sent = Some r, req_context = None, callback = call has_cb (Some err) JUndefined\<rparr>
            | RespEnd resp \<Rightarrow>
                \<lparr>sent = Some r, req_context = None,
                 callback = verifyRequestComplete nd resp requiredScopes has_cb\<rparr>)
         else
           \<lparr>sent = None, req_context = None,
            callback = call has_cb
              (Some (new_Error (''Unsupported protocol '' @ ToString nd protocol))) JUndefined\<rparr>)"

section \<open>The operations\<close>

text \<open>
  Each operation builds its parameters \<^verbatim>\<open>qs\<close> as an object literal followed by
  conditional assignments, encodes them with \<^verbatim>\<open>querystring.stringify\<close> and hands
  them to the dispatcher together with a callback that passes its arguments on
  to the caller's \<^verbatim>\<open>cb\<close>.
\<close>

definition createTokenClientCredentials_qs :: "options \<Rightarrow> (string \<times> js) list" where
  "createTokenClientCredentials_qs opts =
     (let qs = [(''grant_type'', JStr ''client_credentials'')];
          qs = (if truthy (attributes opts) then AList.update ''attributes'' (attributes opts) qs else qs);
          qs = (if truthy (scope opts) then AList.update ''scope'' (scope opts) qs else qs)
      in qs)"

definition createTokenClientCredentials :: "node \<Rightarrow> spi \<Rightarrow> options \<Rightarrow> reply \<Rightarrow> run" where
  "createTokenClientCredentials nd self opts rep =
     (let body = querystring_stringify nd (createTokenClientCredentials_qs opts)
      in makeRequest nd self ''POST'' ''/tokentypes/client/tokens'' body
           (opts\<lparr>grantType := JStr ''client_credentials''\<rparr>) Called rep)"



definition createTokenAuthorizationCode_qs :: "options \<Rightarrow> (string \<times> js) list" where
  "createTokenAuthorizationCode_qs opts =
     (let qs = [(''grant_type'', JStr ''authorization_code''), (''code'', authorization_code opts)];
          qs = (if truthy (redirectUri opts) then AList.update ''redirect_uri'' (redirectUri opts) qs else qs);
          qs = (if truthy (clientId opts) then AList.update ''client_id'' (clientId opts) qs else qs)
      in qs)"

text \<open>
  The callback of the authorization-code exchange. The regular expression
  \<^verbatim>\<open>/^Invalid redirect_uri :/\<close> is tested on the message converted to a string.
\<close>

definition createTokenAuthorizationCode_cb :: "node \<Rightarrow> jserror option \<Rightarrow> js \<Rightarrow> completion" where
  "createTokenAuthorizationCode_cb nd err result =
     (case err of
        None \<Rightarrow> Called None result
      | Some e \<Rightarrow>
          if message e = JStr ''Invalid Authorization Code''
             \<or> message e = JStr ''Required param : redirect_uri''
          then Called (Some (e\<lparr>code := JStr ''invalid_grant''\<rparr>)) result
          else if prefix ''Invalid redirect_uri :'' (ToString nd (message e))
          then Called (Some (e\<lparr>code := JStr ''invalid_grant''\<rparr>)) result
          else Called (Some e) result)"

definition createTokenAuthorizationCode :: "node \<Rightarrow> spi \<Rightarrow> options \<Rightarrow> reply \<Rightarrow> run" where
  "createTokenAuthorizationCode nd self opts rep =
     (let body = querystring_stringify nd (createTokenAuthorizationCode_qs opts)
      in makeRequest nd self ''POST'' ''/tokentypes/authcode/tokens'' body
           (opts\<lparr>grantType := JStr ''authorization_code''\<rparr>) (createTokenAuthorizationCode_cb nd) rep)"





definition refreshToken_qs :: "options \<Rightarrow> (string \<times> js) list" where
  "refreshToken_qs opts =
     (let qs = [(''grant_type'', JStr ''refresh_token''), (''refresh_token'', refreshToken opts)];
          qs = (if truthy (scope opts) then AList.update ''scope'' (scope opts) qs else qs)
      in qs)"

definition refreshToken_cb :: "jserror option \<Rightarrow> js \<Rightarrow> completion" where
  "refreshToken_cb err result =
     (case err of
        None \<Rightarrow> Called None result
      | Some e \<Rightarrow>
          if message e = JStr ''Invalid Scope''
          then Called (Some (e\<lparr>code := JStr ''invalid_scope''\<rparr>)) result
          else Called (Some e) result)"

definition refreshToken_op :: "node \<Rightarrow> spi \<Rightarrow> options \<Rightarrow> reply \<Rightarrow> run" where
  "refreshToken_op nd self opts rep =
     (let body = querystring_stringify nd (refreshToken_qs opts)
      in makeRequest nd self ''POST'' ''/tokentypes/all/refresh'' body
           (opts\<lparr>grantType := JStr ''refresh_token''\<rparr>) refreshToken_cb rep)"



section \<open>Example data\<close>

text \<open>
  An excerpt of the library functions for the examples below, with a caller's
  options and an instance of the module. \<^verbatim>\<open>JSON.parse\<close>, \<^verbatim>\<open>JSON.stringify\<close>,
  \<^verbatim>\<open>querystring.parse\<close>, the base64 encoding and the two functions on large
  numbers are tabulated at the inputs the examples use and at \<open>2 ^ 53\<close> (elsewhere
  the excerpt of \<^verbatim>\<open>JSON.parse\<close> throws and the others give the empty result);
  \<open>huge_numeric\<close> is the digit \<^verbatim>\<open>1\<close> followed by 309 zeros. \<^verbatim>\<open>querystring.stringify\<close> is written out without the
  percent-escaping, which is what it does on names and values of unreserved
  characters: a string, safe integer or boolean is written as it is, an array
  gives one pair for each element, and any other value gives the empty string
  (as does, in this excerpt, a larger number).
\<close>

fun stringifyPrimitive :: "js \<Rightarrow> string" where
  "stringifyPrimitive (JStr s) = s"
| "stringifyPrimitive (JBool b) = (if b then ''true'' else ''false'')"
| "stringifyPrimitive (JNum n) = (if \<bar>n\<bar> < 2 ^ 53 then string_of_int n else [])"
| "stringifyPrimitive v = []"

fun stringify_pair :: "string \<times> js \<Rightarrow> string list" where
  "stringify_pair (k, JArr xs ps) = map (\<lambda>x. k @ ''='' @ stringifyPrimitive x) xs"
| "stringify_pair (k, v) = [k @ ''='' @ stringifyPrimitive v]"

definition example_stringify :: "(string \<times> js) list \<Rightarrow> string" where
  "example_stringify qs = join ''&'' (concat (map stringify_pair qs))"

definition huge_numeric :: string where
  "huge_numeric = CHR ''1'' # replicate 309 (CHR ''0'')"

definition example_node :: node where
  \<open>example_node = \<lparr>
     JSON_parse = map_of
       [(''{"expires_in":"'' @ huge_numeric @ ''"}'', JObj [(''expires_in'', JStr huge_numeric)]),
        (''{}'', JObj []),
        (''{"expires_in":"3600"}'', JObj [(''expires_in'', JStr ''3600'')]),
        (''{"ErrorCode":null}'', JObj [(''ErrorCode'', JNull)]),
        (''{"ErrorCode":"invalid_client","Error":"Invalid Client"}'',
           JObj [(''ErrorCode'', JStr ''invalid_client''), (''Error'', JStr ''Invalid Client'')]),
        (''{"ErrorCode":"invalid_request","Error":"Invalid Authorization Code"}'',
           JObj [(''ErrorCode'', JStr ''invalid_request''), (''Error'', JStr ''Invalid Authorization Code'')]),
        (''{"ErrorCode":"invalid_request","Error":"Invalid Scope"}'',
           JObj [(''ErrorCode'', JStr ''invalid_request''), (''Error'', JStr ''Invalid Scope'')]),
        (''{"ErrorCode":"invalid_grant","Error":"Code expired"}'',
           JObj [(''ErrorCode'', JStr ''invalid_grant''), (''Error'', JStr ''Code expired'')]),
        (''{"ErrorCode":"invalid_scope","Error":"Scope not allowed"}'',
           JObj [(''ErrorCode'', JStr ''invalid_scope''), (''Error'', JStr ''Scope not allowed'')])],
     JSON_stringify = (\<lambda>v. case map_of [(JObj [(''tier'', JStr ''gold'')], ''{"tier":"gold"}'')] v of
                              None \<Rightarrow> [] | Some s \<Rightarrow> s),
     querystring_parse = (\<lambda>s. case map_of
       [(''scope=read%20write%20admin'', [(''scope'', JStr ''read write admin'')]),
        (''scope=read'', [(''scope'', JStr ''read'')]),
        (''scope=read&attributes=%7B%7D'', [(''scope'', JStr ''read''), (''attributes'', JStr ''{}'')]),
        (''scope=read&attributes=gold'', [(''scope'', JStr ''read''), (''attributes'', JStr ''gold'')])] s of
          None \<Rightarrow> [] | Some ps \<Rightarrow> ps),
     querystring_stringify = example_stringify,
     url_parse_protocol = (\<lambda>u. if prefix ''https://'' u then JStr ''https:''
                               else if prefix ''http://'' u then JStr ''http:''
                               else if prefix ''ftp://'' u then JStr ''ftp:'' else JNull),
     base64 = (\<lambda>s. case map_of [(''id:secret'', ''aWQ6c2VjcmV0'')] s of None \<Rightarrow> [] | Some b \<Rightarrow> b),
     nearest_double = map_of [(2 ^ 53, 2 ^ 53)],
     Number_toString = (\<lambda>n. case map_of [(2 ^ 53, ''9007199254740992'')] n of
                               None \<Rightarrow> [] | Some t \<Rightarrow> t)\<rparr>\<close>

definition example_options :: options where
  "example_options = \<lparr>clientId = JStr ''id'', clientSecret = JStr ''secret'', scope = JUndefined,
     tokenLifetime = JUndefined, attributes = JUndefined, username = JUndefined,
     password = JUndefined, authorization_code = JUndefined, redirectUri = JUndefined,
     state = JUndefined, refreshToken = JUndefined, token = JUndefined,
     tokenTypeHint = JUndefined, grantType = JUndefined, request = Some Map.empty\<rparr>"

definition example_spi :: spi where
  "example_spi = \<lparr>uri = ''https://api.example.com/oauth'', key = ''k''\<rparr>"

section \<open>Notions used in the statements\<close>

text \<open>
  A numeric string: decimal digits, at least one, after an optional sign; and
  the integer that it denotes.
\<close>

definition numeric_string :: "string \<Rightarrow> bool" where
  "numeric_string s =
     (case s of [] \<Rightarrow> False
      | c # cs \<Rightarrow> if c = CHR ''-'' \<or> c = CHR ''+'' then cs \<noteq> [] \<and> list_all is_digit cs
                 else list_all is_digit s)"

definition numeric_value :: "string \<Rightarrow> int" where
  "numeric_value s =
     (case s of [] \<Rightarrow> 0
      | c # cs \<Rightarrow> if c = CHR ''-'' then - digits_val cs
                 else if c = CHR ''+'' then digits_val cs
                 else digits_val s)"


text \<open>Handing what the dispatcher delivers to a callback \<open>cb\<close>.\<close>

fun then_cb :: "completion \<Rightarrow> (jserror option \<Rightarrow> js \<Rightarrow> completion) \<Rightarrow> completion" where
  "then_cb (Called err result) cb = cb err result"
| "then_cb Uncaught cb = Uncaught"
| "then_cb NotCalled cb = NotCalled"

section \<open>Properties\<close>

subsection \<open>Facts about values\<close>

lemma lookup_update: "lookup (AList.update k v ps) k' = (if k' = k then v else lookup ps k')"
  by (simp add: lookup_def update_conv')

lemma map_of_update: "map_of (AList.update k v ps) k' = (if k' = k then Some v else map_of ps k')"
  by (simp add: update_conv')

lemma getProp_setProp:
  "setProp j k v = Some j' \<Longrightarrow> getProp j' k' = Some (if k' = k then v else the (getProp j k'))"
  by (cases j) (auto simp: lookup_update)



lemma not_space_digit: "is_digit c \<Longrightarrow> \<not> is_space c"
  by (auto simp: is_digit_def is_space_def)

lemma takeWhile_all: "list_all P xs \<Longrightarrow> takeWhile P xs = xs"
  by (induction xs) auto

lemma parseInt_unsigned:
  assumes "list_all is_digit ds" and "ds \<noteq> []"
  shows "parseInt nd (JStr ds) = to_Number nd False (digits_val ds)"
proof -
  from assms obtain c cs where ds: "ds = c # cs" by (cases ds) auto
  with assms have c: "is_digit c" by simp
  then have nsp: "\<not> is_space c" by (rule not_space_digit)
  from c have sign: "c \<noteq> CHR ''-''" "c \<noteq> CHR ''+''" by (auto simp: is_digit_def)
  show ?thesis
    unfolding parseInt_def ds using nsp sign assms(1) [unfolded ds]
    by (simp add: Let_def takeWhile_all)
qed

lemma parseInt_signed:
  assumes "list_all is_digit ds" and "ds \<noteq> []" and "c = CHR ''-'' \<or> c = CHR ''+''"
  shows "parseInt nd (JStr (c # ds)) = to_Number nd (c = CHR ''-'') (digits_val ds)"
proof -
  from assms(3) have nsp: "\<not> is_space c" by (auto simp: is_space_def)
  show ?thesis
  proof (cases "c = CHR ''-''")
    case True
    with nsp assms(1,2) show ?thesis by (simp add: parseInt_def Let_def takeWhile_all)
  next
    case False
    with assms(3) have "c = CHR ''+''" by simp
    with nsp assms(1,2) show ?thesis by (simp add: parseInt_def Let_def takeWhile_all)
  qed
qed

lemma digits_val_nonneg: "0 \<le> digits_val ds"
proof -
  have "0 \<le> a \<Longrightarrow> 0 \<le> foldl (\<lambda>acc c. 10 * acc + int (digit_val c)) a ds" for a
    by (induction ds arbitrary: a) auto
  then show ?thesis by (simp add: digits_val_def)
qed

lemma to_Number_cases:
  "(\<exists>m. to_Number nd neg n = JNum m) \<or> (\<exists>b. to_Number nd neg n = JInfinity b)"
  by (auto simp: to_Number_def split: option.splits)

lemma to_Number_safe:
  "0 \<le> n \<Longrightarrow> n < 2 ^ 53 \<Longrightarrow> to_Number nd neg n = JNum (if neg then - n else n)"
  by (simp add: to_Number_def)

lemma parseInt_numeric:
  assumes ns: "numeric_string s"
  shows "\<exists>neg. parseInt nd (JStr s) = to_Number nd neg \<bar>numeric_value s\<bar>
               \<and> (neg \<longleftrightarrow> numeric_value s < 0 \<or> (numeric_value s = 0 \<and> neg))"
proof (cases s)
  case Nil
  with ns show ?thesis by (simp add: numeric_string_def)
next
  case (Cons c cs)
  show ?thesis
  proof (cases "c = CHR ''-'' \<or> c = CHR ''+''")
    case True
    with ns Cons have cs: "cs \<noteq> []" "list_all is_digit cs" by (auto simp: numeric_string_def)
    have v: "\<bar>numeric_value s\<bar> = digits_val cs"
      using True Cons digits_val_nonneg [of cs] by (auto simp: numeric_value_def)
    have sg: "numeric_value s < 0 \<Longrightarrow> c = CHR ''-''"
      using True Cons digits_val_nonneg [of cs] by (auto simp: numeric_value_def)
    have sg': "c = CHR ''-'' \<Longrightarrow> numeric_value s \<le> 0"
      using Cons digits_val_nonneg [of cs] by (auto simp: numeric_value_def)
    from parseInt_signed [OF cs(2) cs(1) True, of nd] Cons v sg sg' show ?thesis
      by (intro exI [of _ "c = CHR ''-''"]) auto
  next
    case False
    with ns Cons have d: "list_all is_digit s" by (auto simp: numeric_string_def)
    have v: "\<bar>numeric_value s\<bar> = digits_val s" "0 \<le> numeric_value s"
      using False Cons digits_val_nonneg [of s] by (auto simp: numeric_value_def)
    from parseInt_unsigned [OF d, of nd] Cons v show ?thesis
      by (intro exI [of _ False]) auto
  qed
qed

lemma parseInt_number:
  assumes "numeric_string s"
  shows "(\<exists>m. parseInt nd (JStr s) = JNum m) \<or> (\<exists>b. parseInt nd (JStr s) = JInfinity b)"
  using parseInt_numeric [OF assms, of nd] to_Number_cases by metis

lemma parseInt_safe:
  assumes "numeric_string s" and "\<bar>numeric_value s\<bar> < 2 ^ 53"
  shows "parseInt nd (JStr s) = JNum (numeric_value s)"
proof -
  from parseInt_numeric [OF assms(1), of nd] obtain neg where
    p: "parseInt nd (JStr s) = to_Number nd neg \<bar>numeric_value s\<bar>"
    and n: "neg \<longleftrightarrow> numeric_value s < 0 \<or> (numeric_value s = 0 \<and> neg)"
    by blast
  from assms(2) have "to_Number nd neg \<bar>numeric_value s\<bar>
                      = JNum (if neg then - \<bar>numeric_value s\<bar> else \<bar>numeric_value s\<bar>)"
    by (intro to_Number_safe) auto
  moreover from n have "(if neg then - \<bar>numeric_value s\<bar> else \<bar>numeric_value s\<bar>) = numeric_value s"
    by auto
  ultimately show ?thesis using p by simp
qed

lemma digits_val_snoc: "digits_val (ds @ [c]) = 10 * digits_val ds + int (digit_val c)"
  by (simp add: digits_val_def)

lemma digits_val_zeros: "digits_val (CHR ''1'' # replicate n (CHR ''0'')) = 10 ^ n"
proof (induction n)
  case 0
  show ?case by (simp add: digits_val_def digit_val_def)
next
  case (Suc n)
  have "CHR ''1'' # replicate (Suc n) (CHR ''0'') = (CHR ''1'' # replicate n (CHR ''0'')) @ [CHR ''0'']"
    by (simp add: replicate_append_same)
  with Suc show ?case by (simp only: digits_val_snoc) (simp add: digit_val_def)
qed

lemma huge_numeric_digits: "list_all is_digit huge_numeric" "huge_numeric \<noteq> []"
  by (simp_all add: huge_numeric_def is_digit_def list_all_iff)

lemma parseInt_huge: "parseInt nd (JStr huge_numeric) = JInfinity False"
proof -
  have "digits_val huge_numeric = 10 ^ 309"
    unfolding huge_numeric_def by (rule digits_val_zeros)
  moreover have "(2::int) ^ 1024 \<le> 10 ^ 309" by simp
  moreover have "\<not> (10::int) ^ 309 < 2 ^ 53" by simp
  ultimately show ?thesis
    using parseInt_unsigned [OF huge_numeric_digits, of nd] by (simp add: to_Number_def)
qed

lemma difference_empty: "difference xs ys = [] \<longleftrightarrow> set xs \<subseteq> set ys"
  by (auto simp: difference_def filter_empty_conv)

lemma prefix_drop: "prefix ''x-v.'' k \<Longrightarrow> ''x-v.'' @ drop 4 k = k"
proof -
  assume "prefix ''x-v.'' k"
  then obtain zs where "k = ''x-v.'' @ zs" by (auto simp: prefix_def)
  then show ?thesis by simp
qed

subsection \<open>The token-response interpreter\<close>

text \<open>
  C3. A POST token-shaped response with a status below 300 whose body does not
  parse as JSON makes the interpreter call the callback with no error and no
  result.
\<close>

theorem malformed_body_is_empty_success:
  "statusCode resp < 300 \<Longrightarrow> JSON_parse nd (respData resp) = None \<Longrightarrow>
   requestComplete nd resp opts = Called None JUndefined"
  by (simp add: requestComplete_def requestComplete_try_def)

theorem malformed_body_is_empty_success_witness:
  "statusCode \<lparr>statusCode = 200, headers = [], respData = ''OK''\<rparr> < 300
   \<and> JSON_parse example_node (respData \<lparr>statusCode = 200, headers = [], respData = ''OK''\<rparr>) = None
   \<and> requestComplete example_node \<lparr>statusCode = 200, headers = [], respData = ''OK''\<rparr> example_options
       = Called None JUndefined"
proof -
  have a: "statusCode \<lparr>statusCode = 200, headers = [], respData = ''OK''\<rparr> < 300" by simp
  have b: "JSON_parse example_node (respData \<lparr>statusCode = 200, headers = [], respData = ''OK''\<rparr>) = None"
    by (simp add: example_node_def)
  from a b malformed_body_is_empty_success [OF a b] show ?thesis by blast
qed

lemma requestComplete_try_expires:
  assumes "requestComplete_try nd data opts = Some result"
    and "JSON_parse nd data = Some json"
    and "getProp json ''expires_in'' = Some e"
    and "truthy e"
  shows "getProp result ''expires_in'' = Some (parseInt nd e)"
  using assms
  by (auto simp: requestComplete_try_def split: option.splits if_splits dest!: getProp_setProp [where k' = "''expires_in''"])

text \<open>
  C8, as the code has it. Let the backend JSON of a successful token response
  have \<^verbatim>\<open>expires_in\<close> as a numeric string. The \<^verbatim>\<open>expires_in\<close> of the result that the
  callback receives is then what \<^verbatim>\<open>parseInt\<close> reads from the string: a number, never
  a string. When the magnitude of the value is below \<open>2 ^ 53\<close> it is that integer;
  in general it is the value of a double, or an infinity. A response is
  successful when the callback receives a result; the status is then below 300
  and the error slot empty.
\<close>

theorem expires_in_is_integer:
  assumes "JSON_parse nd (respData resp) = Some json"
    and "getProp json ''expires_in'' = Some (JStr s)"
    and "numeric_string s"
    and "requestComplete nd resp opts = Called err result"
    and "result \<noteq> JUndefined"
  shows "err = None \<and> statusCode resp < 300
         \<and> getProp result ''expires_in'' = Some (parseInt nd (JStr s))
         \<and> ((\<exists>m. parseInt nd (JStr s) = JNum m) \<or> (\<exists>b. parseInt nd (JStr s) = JInfinity b))
         \<and> (\<bar>numeric_value s\<bar> < 2 ^ 53 \<longrightarrow>
              getProp result ''expires_in'' = Some (JNum (numeric_value s)))"
proof -
  from assms(3) have t: "truthy (JStr s)" by (auto simp: numeric_string_def)
  from assms(4,5) have ok: "statusCode resp < 300" "err = None"
    and tr: "requestComplete_try nd (respData resp) opts = Some result"
    by (auto simp: requestComplete_def Let_def split: if_splits option.splits)
  from requestComplete_try_expires [OF tr assms(1,2) t]
  have g: "getProp result ''expires_in'' = Some (parseInt nd (JStr s))" .
  from parseInt_safe [OF assms(3), of nd] g
  have "\<bar>numeric_value s\<bar> < 2 ^ 53 \<longrightarrow> getProp result ''expires_in'' = Some (JNum (numeric_value s))"
    by simp
  with ok g parseInt_number [OF assms(3), of nd] show ?thesis by blast
qed

theorem expires_in_is_integer_witness:
  \<open>JSON_parse example_node (respData \<lparr>statusCode = 200, headers = [], respData = ''{"expires_in":"3600"}''\<rparr>)
     = Some (JObj [(''expires_in'', JStr ''3600'')])
   \<and> getProp (JObj [(''expires_in'', JStr ''3600'')]) ''expires_in'' = Some (JStr ''3600'')
   \<and> numeric_string ''3600''
   \<and> requestComplete example_node \<lparr>statusCode = 200, headers = [], respData = ''{"expires_in":"3600"}''\<rparr>
        (example_options\<lparr>grantType := JStr ''password''\<rparr>)
      = Called None (JObj [(''expires_in'', JNum 3600), (''token_type'', JStr ''password'')])
   \<and> numeric_value ''3600'' = 3600
   \<and> \<bar>numeric_value ''3600''\<bar> < (2::int) ^ 53
   \<and> getProp (JObj [(''expires_in'', JNum 3600), (''token_type'', JStr ''password'')]) ''expires_in''
      = Some (JNum (numeric_value ''3600''))\<close>
proof -
  let ?resp = \<open>\<lparr>statusCode = 200, headers = [], respData = ''{"expires_in":"3600"}''\<rparr>\<close>
  let ?opts = "example_options\<lparr>grantType := JStr ''password''\<rparr>"
  let ?result = "JObj [(''expires_in'', JNum 3600), (''token_type'', JStr ''password'')]"
  have v: "numeric_value ''3600'' = 3600"
    by (simp add: numeric_value_def digits_val_def digit_val_def)
  have p: "parseInt example_node (JStr ''3600'') = JNum 3600"
    by (simp add: parseInt_def to_Number_def is_space_def is_digit_def digits_val_def digit_val_def)
  have a: "JSON_parse example_node (respData ?resp) = Some (JObj [(''expires_in'', JStr ''3600'')])"
    by (simp add: example_node_def)
  have b: "getProp (JObj [(''expires_in'', JStr ''3600'')]) ''expires_in'' = Some (JStr ''3600'')"
    by (simp add: lookup_def)
  have c: "numeric_string ''3600''"
    by (simp add: numeric_string_def is_digit_def)
  have d: "requestComplete example_node ?resp ?opts = Called None ?result"
    by (simp add: requestComplete_def requestComplete_try_def a [simplified] lookup_def p
          example_options_def)
  have e: "?result \<noteq> JUndefined" by simp
  have f: "\<bar>numeric_value ''3600''\<bar> < (2::int) ^ 53" by (simp add: v)
  from expires_in_is_integer [OF a b c d e] f have
    "getProp ?result ''expires_in'' = Some (JNum (numeric_value ''3600''))" by blast
  with a b c d v f show ?thesis by blast
qed

text \<open>
  C8 as stated fails on a numeric string of 310 digits: what the callback
  receives under \<^verbatim>\<open>expires_in\<close> is \<^verbatim>\<open>Infinity\<close>, which is not an integer.
\<close>

theorem expires_in_infinity_counterexample:
  \<open>numeric_string huge_numeric
   \<and> requestComplete example_node
        \<lparr>statusCode = 200, headers = [], respData = ''{"expires_in":"'' @ huge_numeric @ ''"}''\<rparr>
        (example_options\<lparr>grantType := JStr ''password''\<rparr>)
      = Called None (JObj [(''expires_in'', JInfinity False), (''token_type'', JStr ''password'')])\<close>
proof -
  have n: "numeric_string huge_numeric"
    using huge_numeric_digits by (simp add: numeric_string_def huge_numeric_def)
  have j: \<open>JSON_parse example_node (''{"expires_in":"'' @ huge_numeric @ ''"}'')
           = Some (JObj [(''expires_in'', JStr huge_numeric)])\<close>
    by (simp add: example_node_def)
  have t: "truthy (JStr huge_numeric)" using huge_numeric_digits(2) by simp
  from n show ?thesis
    by (simp add: requestComplete_def requestComplete_try_def j [simplified] t [simplified] lookup_def
          parseInt_huge example_options_def)
qed

text \<open>
  C6, as the code has it. On a status of 400 or 401 whose body decodes as a JSON
  object: when the fields \<^verbatim>\<open>ErrorCode\<close> and \<^verbatim>\<open>Error\<close> are both present and \<^verbatim>\<open>ErrorCode\<close>
  is not \<^verbatim>\<open>null\<close>, the callback error carries the status, \<^verbatim>\<open>ErrorCode\<close> as its code
  and \<^verbatim>\<open>Error\<close> as its message; when \<^verbatim>\<open>ErrorCode\<close> is present with the value \<^verbatim>\<open>null\<close>,
  the callback error carries the status and the message
  \<^verbatim>\<open>Error on HTTP request\<close>, with no code and without the raw body. On every other
  status from 300 on it carries the status and the raw body, with no code.
  Nothing is stated for a 400 or 401 whose body has no \<^verbatim>\<open>ErrorCode\<close> or is not a
  JSON object.
\<close>

theorem error_response_interpretation:
  "((statusCode resp = 400 \<or> statusCode resp = 401)
      \<and> JSON_parse nd (respData resp) = Some (JObj ps)
      \<and> map_of ps ''ErrorCode'' = Some ec \<and> ec \<noteq> JNull \<and> map_of ps ''Error'' = Some m
    \<longrightarrow> requestComplete nd resp opts =
          Called (Some \<lparr>message = m, err_statusCode = JNum (statusCode resp), code = ec,
                         errorCode = JUndefined\<rparr>) JUndefined)
   \<and> ((statusCode resp = 400 \<or> statusCode resp = 401)
      \<and> JSON_parse nd (respData resp) = Some (JObj ps)
      \<and> map_of ps ''ErrorCode'' = Some JNull
    \<longrightarrow> requestComplete nd resp opts =
          Called (Some \<lparr>message = JStr ''Error on HTTP request'',
                         err_statusCode = JNum (statusCode resp), code = JUndefined,
                         errorCode = JUndefined\<rparr>) JUndefined)
   \<and> (statusCode resp \<ge> 300 \<and> statusCode resp \<noteq> 400 \<and> statusCode resp \<noteq> 401
    \<longrightarrow> requestComplete nd resp opts =
          Called (Some \<lparr>message = JStr (respData resp),
                         err_statusCode = JNum (statusCode resp), code = JUndefined,
                         errorCode = JUndefined\<rparr>) JUndefined)"
  by (auto simp: requestComplete_def new_Error_def lookup_def Let_def)

theorem error_response_interpretation_witness:
  \<open>requestComplete example_node
      \<lparr>statusCode = 401, headers = [],
       respData = ''{"ErrorCode":"invalid_client","Error":"Invalid Client"}''\<rparr> example_options
    = Called (Some \<lparr>message = JStr ''Invalid Client'', err_statusCode = JNum 401,
                     code = JStr ''invalid_client'', errorCode = JUndefined\<rparr>) JUndefined
   \<and> requestComplete example_node
      \<lparr>statusCode = 400, headers = [], respData = ''{"ErrorCode":null}''\<rparr> example_options
    = Called (Some \<lparr>message = JStr ''Error on HTTP request'', err_statusCode = JNum 400,
                     code = JUndefined, errorCode = JUndefined\<rparr>) JUndefined
   \<and> requestComplete example_node
      \<lparr>statusCode = 503, headers = [], respData = ''Service Unavailable''\<rparr> example_options
    = Called (Some \<lparr>message = JStr ''Service Unavailable'', err_statusCode = JNum 503,
                     code = JUndefined, errorCode = JUndefined\<rparr>) JUndefined\<close>
proof -
  have a: \<open>JSON_parse example_node ''{"ErrorCode":"invalid_client","Error":"Invalid Client"}''
           = Some (JObj [(''ErrorCode'', JStr ''invalid_client''), (''Error'', JStr ''Invalid Client'')])\<close>
    by (simp add: example_node_def)
  have b: \<open>JSON_parse example_node ''{"ErrorCode":null}'' = Some (JObj [(''ErrorCode'', JNull)])\<close>
    by (simp add: example_node_def)
  show ?thesis
    using error_response_interpretation
            [of \<open>\<lparr>statusCode = 401, headers = [],
                  respData = ''{"ErrorCode":"invalid_client","Error":"Invalid Client"}''\<rparr>\<close>
                example_node
                "[(''ErrorCode'', JStr ''invalid_client''), (''Error'', JStr ''Invalid Client'')]"
                "JStr ''invalid_client''" "JStr ''Invalid Client''" example_options]
          error_response_interpretation
            [of \<open>\<lparr>statusCode = 400, headers = [], respData = ''{"ErrorCode":null}''\<rparr>\<close>
                example_node "[(''ErrorCode'', JNull)]" JNull JNull example_options]
          error_response_interpretation
            [of "\<lparr>statusCode = 503, headers = [], respData = ''Service Unavailable''\<rparr>"
                example_node "[]" JNull JNull example_options]
    by (simp add: a b)
qed

text \<open>
  C6 as stated fails on a 400 without a usable \<^verbatim>\<open>ErrorCode\<close>. Where the field is
  \<^verbatim>\<open>null\<close>, the error that the callback receives has the message
  \<^verbatim>\<open>Error on HTTP request\<close>, not the raw body; where the body is \<^verbatim>\<open>{}\<close>, it is not the
  error with the status and the raw body either.
\<close>

theorem error_without_fields_counterexample:
  \<open>requestComplete example_node
       \<lparr>statusCode = 400, headers = [], respData = ''{"ErrorCode":null}''\<rparr> example_options
     = Called (Some \<lparr>message = JStr ''Error on HTTP request'', err_statusCode = JNum 400,
                      code = JUndefined, errorCode = JUndefined\<rparr>) JUndefined
   \<and> requestComplete example_node \<lparr>statusCode = 400, headers = [], respData = ''{}''\<rparr> example_options
     \<noteq> Called (Some \<lparr>message = JStr ''{}'', err_statusCode = JNum 400, code = JUndefined,
                      errorCode = JUndefined\<rparr>) JUndefined\<close>
  by (simp add: requestComplete_def example_node_def new_Error_def lookup_def)

text \<open>
  A 400 or 401 whose body is not JSON, or is the JSON \<^verbatim>\<open>null\<close>, makes the handler
  throw; the callback is not called.
\<close>

lemma error_body_not_json:
  "(statusCode resp = 400 \<or> statusCode resp = 401) \<Longrightarrow>
   JSON_parse nd (respData resp) = None \<or> JSON_parse nd (respData resp) = Some JNull \<Longrightarrow>
   requestComplete nd resp opts = Uncaught"
  by (auto simp: requestComplete_def Let_def)

subsection \<open>The slots of the completion callback\<close>
















subsection \<open>Error remapping\<close>

lemma makeRequest_callback:
  "callback (makeRequest nd self verb uriPath body opts cb rep)
   = then_cb (callback (makeRequest nd self verb uriPath body opts Called rep)) cb"
  by (cases rep) (auto simp: makeRequest_def Let_def deliver_def split: completion.splits)

text \<open>
  C4, as the code has it. Let an authorization-code token exchange end in an
  error \<open>e'\<close>, and let \<open>e\<close> be the error that the dispatcher produced for it. The
  message is unchanged. If the message is \<^verbatim>\<open>Invalid Authorization Code\<close> or
  \<^verbatim>\<open>Required param : redirect_uri\<close>, or starts with \<^verbatim>\<open>Invalid redirect_uri :\<close>, the
  final code is \<^verbatim>\<open>invalid_grant\<close>; for any other message the final error is \<open>e\<close>
  itself, with the code that the interpreter gave it. So the final code is
  \<^verbatim>\<open>invalid_grant\<close> exactly when the message is one of these or the code of \<open>e\<close>
  already was \<^verbatim>\<open>invalid_grant\<close>.
\<close>

theorem authorization_code_remap:
  assumes "callback (createTokenAuthorizationCode nd self opts rep) = Called (Some e') result"
  shows "\<exists>e. callback (makeRequest nd self ''POST'' ''/tokentypes/authcode/tokens''
                 (querystring_stringify nd (createTokenAuthorizationCode_qs opts))
                 (opts\<lparr>grantType := JStr ''authorization_code''\<rparr>) Called rep)
              = Called (Some e) result
           \<and> message e' = message e
           \<and> (if message e' = JStr ''Invalid Authorization Code''
                  \<or> message e' = JStr ''Required param : redirect_uri''
                  \<or> prefix ''Invalid redirect_uri :'' (ToString nd (message e'))
               then e' = e\<lparr>code := JStr ''invalid_grant''\<rparr> \<and> code e' = JStr ''invalid_grant''
               else e' = e \<and> code e' = code e)
           \<and> (code e' = JStr ''invalid_grant'' \<longleftrightarrow>
                 message e' = JStr ''Invalid Authorization Code''
                 \<or> message e' = JStr ''Required param : redirect_uri''
                 \<or> prefix ''Invalid redirect_uri :'' (ToString nd (message e'))
                 \<or> code e = JStr ''invalid_grant'')"
proof -
  let ?plain = "callback (makeRequest nd self ''POST'' ''/tokentypes/authcode/tokens''
                 (querystring_stringify nd (createTokenAuthorizationCode_qs opts))
                 (opts\<lparr>grantType := JStr ''authorization_code''\<rparr>) Called rep)"
  from assms have "then_cb ?plain (createTokenAuthorizationCode_cb nd) = Called (Some e') result"
    by (simp add: createTokenAuthorizationCode_def Let_def makeRequest_callback [where cb = "createTokenAuthorizationCode_cb nd"])
  then obtain err where p: "?plain = Called err result"
    and c: "createTokenAuthorizationCode_cb nd err result = Called (Some e') result"
    by (cases ?plain) (auto simp: createTokenAuthorizationCode_cb_def split: option.splits if_splits)
  from c obtain e where e: "err = Some e"
    by (cases err) (auto simp: createTokenAuthorizationCode_cb_def)
  from c e have m: "message e' = message e"
    and r: "if message e = JStr ''Invalid Authorization Code''
            \<or> message e = JStr ''Required param : redirect_uri''
            \<or> prefix ''Invalid redirect_uri :'' (ToString nd (message e))
         then e' = e\<lparr>code := JStr ''invalid_grant''\<rparr> \<and> code e' = JStr ''invalid_grant''
         else e' = e \<and> code e' = code e"
    by (auto simp: createTokenAuthorizationCode_cb_def split: if_splits)
  from r have i: "code e' = JStr ''invalid_grant'' \<longleftrightarrow>
                 message e = JStr ''Invalid Authorization Code''
                 \<or> message e = JStr ''Required param : redirect_uri''
                 \<or> prefix ''Invalid redirect_uri :'' (ToString nd (message e))
                 \<or> code e = JStr ''invalid_grant''"
    by (auto split: if_splits)
  from p e m r i show ?thesis by (simp only: m) blast
qed

theorem authorization_code_remap_witness:
  \<open>callback (createTokenAuthorizationCode example_node example_spi example_options
       (RespEnd \<lparr>statusCode = 400, headers = [],
          respData = ''{"ErrorCode":"invalid_request","Error":"Invalid Authorization Code"}''\<rparr>))
    = Called (Some \<lparr>message = JStr ''Invalid Authorization Code'', err_statusCode = JNum 400,
                     code = JStr ''invalid_grant'', errorCode = JUndefined\<rparr>) JUndefined
   \<and> callback (makeRequest example_node example_spi ''POST'' ''/tokentypes/authcode/tokens''
         (querystring_stringify example_node (createTokenAuthorizationCode_qs example_options))
         (example_options\<lparr>grantType := JStr ''authorization_code''\<rparr>) Called
         (RespEnd \<lparr>statusCode = 400, headers = [],
            respData = ''{"ErrorCode":"invalid_request","Error":"Invalid Authorization Code"}''\<rparr>))
    = Called (Some \<lparr>message = JStr ''Invalid Authorization Code'', err_statusCode = JNum 400,
                     code = JStr ''invalid_request'', errorCode = JUndefined\<rparr>) JUndefined\<close>
proof -
  let ?rep = \<open>RespEnd \<lparr>statusCode = 400, headers = [],
          respData = ''{"ErrorCode":"invalid_request","Error":"Invalid Authorization Code"}''\<rparr>\<close>
  let ?e' = "\<lparr>message = JStr ''Invalid Authorization Code'', err_statusCode = JNum 400,
                     code = JStr ''invalid_grant'', errorCode = JUndefined\<rparr>"
  have a: "callback (createTokenAuthorizationCode example_node example_spi example_options ?rep)
           = Called (Some ?e') JUndefined"
    by (simp add: createTokenAuthorizationCode_def createTokenAuthorizationCode_cb_def
          makeRequest_def deliver_def requestComplete_def new_Error_def lookup_def
          example_node_def example_spi_def example_options_def Let_def)
  from authorization_code_remap [OF a] obtain e where
    p: "callback (makeRequest example_node example_spi ''POST'' ''/tokentypes/authcode/tokens''
         (querystring_stringify example_node (createTokenAuthorizationCode_qs example_options))
         (example_options\<lparr>grantType := JStr ''authorization_code''\<rparr>) Called ?rep)
        = Called (Some e) JUndefined"
    and q: "?e' = e\<lparr>code := JStr ''invalid_grant''\<rparr>"
    by auto
  have "callback (makeRequest example_node example_spi ''POST'' ''/tokentypes/authcode/tokens''
         (querystring_stringify example_node (createTokenAuthorizationCode_qs example_options))
         (example_options\<lparr>grantType := JStr ''authorization_code''\<rparr>) Called ?rep)
        = Called (Some \<lparr>message = JStr ''Invalid Authorization Code'', err_statusCode = JNum 400,
                     code = JStr ''invalid_request'', errorCode = JUndefined\<rparr>) JUndefined"
    by (simp add: makeRequest_def deliver_def requestComplete_def new_Error_def lookup_def
          example_node_def example_spi_def example_options_def Let_def)
  with a p show ?thesis by simp
qed

text \<open>
  C4 as stated fails where the backend itself answers with the code
  \<^verbatim>\<open>invalid_grant\<close> and another message: the final code is \<^verbatim>\<open>invalid_grant\<close> although
  the message is none of the three.
\<close>

theorem authorization_code_backend_code_counterexample:
  \<open>callback (createTokenAuthorizationCode example_node example_spi example_options
       (RespEnd \<lparr>statusCode = 400, headers = [],
          respData = ''{"ErrorCode":"invalid_grant","Error":"Code expired"}''\<rparr>))
    = Called (Some \<lparr>message = JStr ''Code expired'', err_statusCode = JNum 400,
                     code = JStr ''invalid_grant'', errorCode = JUndefined\<rparr>) JUndefined
   \<and> ''Code expired'' \<noteq> ''Invalid Authorization Code''
   \<and> ''Code expired'' \<noteq> ''Required param : redirect_uri''
   \<and> \<not> prefix ''Invalid redirect_uri :'' ''Code expired''\<close>
  by (simp add: createTokenAuthorizationCode_def createTokenAuthorizationCode_cb_def
        makeRequest_def deliver_def requestComplete_def new_Error_def lookup_def
        example_node_def example_spi_def example_options_def Let_def)

text \<open>
  C5, as the code has it. Let a refresh-token call end in an error \<open>e'\<close>, and let
  \<open>e\<close> be the error that the dispatcher produced for it. The message is
  unchanged. If the message is the string \<^verbatim>\<open>Invalid Scope\<close> the final code is
  \<^verbatim>\<open>invalid_scope\<close>; for any other message the final error is \<open>e\<close> itself, with the
  code that the interpreter gave it. So the final code is \<^verbatim>\<open>invalid_scope\<close> exactly
  when the message is \<^verbatim>\<open>Invalid Scope\<close> or the code of \<open>e\<close> already was
  \<^verbatim>\<open>invalid_scope\<close>.
\<close>

theorem refresh_remap:
  assumes "callback (refreshToken_op nd self opts rep) = Called (Some e') result"
  shows "\<exists>e. callback (makeRequest nd self ''POST'' ''/tokentypes/all/refresh''
                 (querystring_stringify nd (refreshToken_qs opts))
                 (opts\<lparr>grantType := JStr ''refresh_token''\<rparr>) Called rep)
              = Called (Some e) result
           \<and> message e' = message e
           \<and> (if message e' = JStr ''Invalid Scope''
               then e' = e\<lparr>code := JStr ''invalid_scope''\<rparr> \<and> code e' = JStr ''invalid_scope''
               else e' = e \<and> code e' = code e)
           \<and> (code e' = JStr ''invalid_scope'' \<longleftrightarrow>
                 message e' = JStr ''Invalid Scope'' \<or> code e = JStr ''invalid_scope'')"
proof -
  let ?plain = "callback (makeRequest nd self ''POST'' ''/tokentypes/all/refresh''
                 (querystring_stringify nd (refreshToken_qs opts))
                 (opts\<lparr>grantType := JStr ''refresh_token''\<rparr>) Called rep)"
  from assms have "then_cb ?plain refreshToken_cb = Called (Some e') result"
    by (simp add: refreshToken_op_def Let_def makeRequest_callback [where cb = refreshToken_cb])
  then obtain err where p: "?plain = Called err result"
    and c: "refreshToken_cb err result = Called (Some e') result"
    by (cases ?plain) (auto simp: refreshToken_cb_def split: option.splits if_splits)
  from c obtain e where e: "err = Some e"
    by (cases err) (auto simp: refreshToken_cb_def)
  from c e have m: "message e' = message e"
    and r: "if message e = JStr ''Invalid Scope''
         then e' = e\<lparr>code := JStr ''invalid_scope''\<rparr> \<and> code e' = JStr ''invalid_scope''
         else e' = e \<and> code e' = code e"
    by (auto simp: refreshToken_cb_def split: if_splits)
  from r have i: "code e' = JStr ''invalid_scope'' \<longleftrightarrow>
                 message e = JStr ''Invalid Scope'' \<or> code e = JStr ''invalid_scope''"
    by (auto split: if_splits)
  from p e m r i show ?thesis by (simp only: m) blast
qed

theorem refresh_remap_witness:
  \<open>callback (refreshToken_op example_node example_spi example_options
       (RespEnd \<lparr>statusCode = 400, headers = [],
          respData = ''{"ErrorCode":"invalid_request","Error":"Invalid Scope"}''\<rparr>))
    = Called (Some \<lparr>message = JStr ''Invalid Scope'', err_statusCode = JNum 400,
                     code = JStr ''invalid_scope'', errorCode = JUndefined\<rparr>) JUndefined
   \<and> callback (makeRequest example_node example_spi ''POST'' ''/tokentypes/all/refresh''
         (querystring_stringify example_node (refreshToken_qs example_options))
         (example_options\<lparr>grantType := JStr ''refresh_token''\<rparr>) Called
         (RespEnd \<lparr>statusCode = 400, headers = [],
            respData = ''{"ErrorCode":"invalid_request","Error":"Invalid Scope"}''\<rparr>))
    = Called (Some \<lparr>message = JStr ''Invalid Scope'', err_statusCode = JNum 400,
                     code = JStr ''invalid_request'', errorCode = JUndefined\<rparr>) JUndefined\<close>
proof -
  let ?rep = \<open>RespEnd \<lparr>statusCode = 400, headers = [],
          respData = ''{"ErrorCode":"invalid_request","Error":"Invalid Scope"}''\<rparr>\<close>
  let ?e' = "\<lparr>message = JStr ''Invalid Scope'', err_statusCode = JNum 400,
                     code = JStr ''invalid_scope'', errorCode = JUndefined\<rparr>"
  have a: "callback (refreshToken_op example_node example_spi example_options ?rep)
           = Called (Some ?e') JUndefined"
    by (simp add: refreshToken_op_def refreshToken_cb_def
          makeRequest_def deliver_def requestComplete_def new_Error_def lookup_def
          example_node_def example_spi_def example_options_def Let_def)
  from refresh_remap [OF a] obtain e where
    p: "callback (makeRequest example_node example_spi ''POST'' ''/tokentypes/all/refresh''
         (querystring_stringify example_node (refreshToken_qs example_options))
         (example_options\<lparr>grantType := JStr ''refresh_token''\<rparr>) Called ?rep)
        = Called (Some e) JUndefined"
    by auto
  have "callback (makeRequest example_node example_spi ''POST'' ''/tokentypes/all/refresh''
         (querystring_stringify example_node (refreshToken_qs example_options))
         (example_options\<lparr>grantType := JStr ''refresh_token''\<rparr>) Called ?rep)
        = Called (Some \<lparr>message = JStr ''Invalid Scope'', err_statusCode = JNum 400,
                     code = JStr ''invalid_request'', errorCode = JUndefined\<rparr>) JUndefined"
    by (simp add: makeRequest_def deliver_def requestComplete_def new_Error_def lookup_def
          example_node_def example_spi_def example_options_def Let_def)
  with a p show ?thesis by simp
qed

text \<open>
  C5 as stated fails where the backend itself answers with the code
  \<^verbatim>\<open>invalid_scope\<close> and another message: the final code is \<^verbatim>\<open>invalid_scope\<close> although
  the message is not \<^verbatim>\<open>Invalid Scope\<close>.
\<close>

theorem refresh_backend_code_counterexample:
  \<open>callback (refreshToken_op example_node example_spi example_options
       (RespEnd \<lparr>statusCode = 400, headers = [],
          respData = ''{"ErrorCode":"invalid_scope","Error":"Scope not allowed"}''\<rparr>))
    = Called (Some \<lparr>message = JStr ''Scope not allowed'', err_statusCode = JNum 400,
                     code = JStr ''invalid_scope'', errorCode = JUndefined\<rparr>) JUndefined
   \<and> ''Scope not allowed'' \<noteq> ''Invalid Scope''\<close>
  by (simp add: refreshToken_op_def refreshToken_cb_def
        makeRequest_def deliver_def requestComplete_def new_Error_def lookup_def
        example_node_def example_spi_def example_options_def Let_def)

subsection \<open>The dispatcher and the request builders\<close>

text \<open>
  C7. When the protocol of the target URL is neither \<^verbatim>\<open>http:\<close> nor \<^verbatim>\<open>https:\<close>, each of
  the three dispatching functions hands no request to the transport and calls
  the callback with the error \<^verbatim>\<open>Unsupported protocol\<close>, whatever the transport would
  have replied; the request context is untouched. (\<^verbatim>\<open>verifyToken\<close> is stated for a
  call that passes a callback.)
\<close>

theorem unsupported_scheme:
  "(url_parse_protocol nd (uri self @ uriPath) \<notin> {JStr ''http:'', JStr ''https:''}
    \<longrightarrow> makeRequest nd self verb uriPath body opts cb rep =
          \<lparr>sent = None, req_context = request opts,
           callback = cb (Some (new_Error (''Unsupported protocol '' @
                        ToString nd (url_parse_protocol nd (uri self @ uriPath))))) JUndefined\<rparr>)
   \<and> (url_parse_protocol nd (uri self @ uriPath @ ''?'' @ qs) \<notin> {JStr ''http:'', JStr ''https:''}
    \<longrightarrow> makeGetRequest nd self uriPath qs opts cb rep =
          \<lparr>sent = None, req_context = request opts,
           callback = cb (Some (new_Error (''Unsupported protocol '' @
                        ToString nd (url_parse_protocol nd (uri self @ uriPath @ ''?'' @ qs))))) JUndefined\<rparr>)
   \<and> (urlString = uri self @ ''/tokentypes/all/verify'' @
         (if truthy requiredScopes
          then ''?'' @ querystring_stringify nd [(''scope'', requiredScopes)] else [])
      \<and> url_parse_protocol nd urlString \<notin> {JStr ''http:'', JStr ''https:''}
    \<longrightarrow> verifyToken nd self tok requiredScopes True rep =
          \<lparr>sent = None, req_context = None,
           callback = Called (Some (new_Error (''Unsupported protocol '' @
                        ToString nd (url_parse_protocol nd urlString)))) JUndefined\<rparr>)"
  by (auto simp: makeRequest_def makeGetRequest_def verifyToken_def call_def Let_def)

theorem unsupported_scheme_witness:
  "makeRequest example_node \<lparr>uri = ''ftp://files.example.com'', key = ''k''\<rparr> ''POST''
       ''/tokentypes/client/tokens'' ''grant_type=client_credentials'' example_options Called
       (RespEnd \<lparr>statusCode = 200, headers = [], respData = ''{}''\<rparr>)
     = \<lparr>sent = None, req_context = request example_options,
        callback = Called (Some \<lparr>message = JStr ''Unsupported protocol ftp:'',
                     err_statusCode = JUndefined, code = JUndefined, errorCode = JUndefined\<rparr>)
                     JUndefined\<rparr>
   \<and> makeGetRequest example_node \<lparr>uri = ''ftp://files.example.com'', key = ''k''\<rparr>
       ''/tokentypes/authcode/authcodes'' ''response_type=code&client_id=id'' example_options Called
       (RespEnd \<lparr>statusCode = 302, headers = [(''location'', ''https://cb?code=1'')], respData = []\<rparr>)
     = \<lparr>sent = None, req_context = request example_options,
        callback = Called (Some \<lparr>message = JStr ''Unsupported protocol ftp:'',
                     err_statusCode = JUndefined, code = JUndefined, errorCode = JUndefined\<rparr>)
                     JUndefined\<rparr>
   \<and> verifyToken example_node \<lparr>uri = ''api.example.com'', key = ''k''\<rparr> (JStr ''t'') JUndefined True
       (RespEnd \<lparr>statusCode = 200, headers = [], respData = ''scope=read''\<rparr>)
     = \<lparr>sent = None, req_context = None,
        callback = Called (Some \<lparr>message = JStr ''Unsupported protocol null'',
                     err_statusCode = JUndefined, code = JUndefined, errorCode = JUndefined\<rparr>)
                     JUndefined\<rparr>"
  using unsupported_scheme
          [of example_node "\<lparr>uri = ''ftp://files.example.com'', key = ''k''\<rparr>"
              "''/tokentypes/client/tokens''" "''POST''" "''grant_type=client_credentials''"
              example_options Called "RespEnd \<lparr>statusCode = 200, headers = [], respData = ''{}''\<rparr>"
              "''response_type=code&client_id=id''" "''''" JUndefined "JStr ''t''"]
        unsupported_scheme
          [of example_node "\<lparr>uri = ''ftp://files.example.com'', key = ''k''\<rparr>"
              "''/tokentypes/authcode/authcodes''" "''POST''" "''grant_type=client_credentials''"
              example_options Called
              "RespEnd \<lparr>statusCode = 302, headers = [(''location'', ''https://cb?code=1'')], respData = []\<rparr>"
              "''response_type=code&client_id=id''" "''''" JUndefined "JStr ''t''"]
        unsupported_scheme
          [of example_node "\<lparr>uri = ''api.example.com'', key = ''k''\<rparr>"
              "''/tokentypes/client/tokens''" "''POST''" "''grant_type=client_credentials''"
              example_options Called "RespEnd \<lparr>statusCode = 200, headers = [], respData = ''scope=read''\<rparr>"
              "''response_type=code&client_id=id''" "''api.example.com/tokentypes/all/verify''"
              JUndefined "JStr ''t''"]
  by (simp add: example_node_def new_Error_def)

lemma makeRequest_sent:
  assumes "url_parse_protocol nd (uri self @ uriPath) \<in> {JStr ''http:'', JStr ''https:''}"
  shows "\<exists>r. sent (makeRequest nd self verb uriPath body opts cb rep) = Some r
           \<and> req_method r = verb
           \<and> req_body r = (if body \<noteq> [] then Some body else None)
           \<and> map_of (req_headers r) ''x-DNA-Token-Attributes'' =
                (if truthy (attributes opts)
                 then Some (JStr (JSON_stringify nd (attributes opts))) else None)"
proof -
  define h where "h =
     (let h1 = AList.update ''x-DNA-Api-Key'' (JStr (key self))
                 [(''Authorization'', JStr (''Basic '' @
                    base64 nd (ToString nd (clientId opts) @ '':'' @ ToString nd (clientSecret opts))))];
          h2 = (if truthy (tokenLifetime opts)
                then AList.update ''x-DNA-Token-Lifetime'' (tokenLifetime opts) h1 else h1);
          h3 = (if truthy (attributes opts)
                then AList.update ''x-DNA-Token-Attributes''
                       (JStr (JSON_stringify nd (attributes opts))) h2
                else h2)
      in (if body \<noteq> []
          then AList.update ''Content-Type'' (JStr ''application/x-www-form-urlencoded'') h3
          else h3))"
  define r where "r = \<lparr>href = uri self @ uriPath, req_method = verb, req_headers = h,
                         req_body = (if body \<noteq> [] then Some body else None)\<rparr>"
  have look: "map_of h ''x-DNA-Token-Attributes'' =
                (if truthy (attributes opts)
                 then Some (JStr (JSON_stringify nd (attributes opts))) else None)"
    by (simp add: h_def Let_def map_of_update)
  have "sent (makeRequest nd self verb uriPath body opts cb rep) = Some r"
  proof (cases rep)
    case (ReqError e)
    with assms show ?thesis
      unfolding makeRequest_def r_def h_def Let_def by auto
  next
    case (RespError resp e)
    with assms show ?thesis
      unfolding makeRequest_def r_def h_def Let_def deliver_def by auto
  next
    case (RespEnd resp)
    with assms show ?thesis
      unfolding makeRequest_def r_def h_def Let_def deliver_def
      by (cases "requestComplete nd resp opts") auto
  qed
  with look show ?thesis by (simp add: r_def)
qed

text \<open>
  C10, as the code has it. A client-credentials request that is dispatched is a
  POST whose body encodes exactly \<^verbatim>\<open>grant_type=client_credentials\<close>, then
  \<^verbatim>\<open>attributes\<close> when set, then \<^verbatim>\<open>scope\<close> when set. When \<^verbatim>\<open>attributes\<close> is set the
  request also carries it, serialized as JSON, in the header
  \<^verbatim>\<open>x-DNA-Token-Attributes\<close>; the header is absent otherwise.
\<close>

theorem client_credentials_request:
  assumes "url_parse_protocol nd (uri self @ ''/tokentypes/client/tokens'')
             \<in> {JStr ''http:'', JStr ''https:''}"
  shows "\<exists>r. sent (createTokenClientCredentials nd self opts rep) = Some r
           \<and> req_method r = ''POST''
           \<and> createTokenClientCredentials_qs opts =
                [(''grant_type'', JStr ''client_credentials'')]
                @ (if truthy (attributes opts) then [(''attributes'', attributes opts)] else [])
                @ (if truthy (scope opts) then [(''scope'', scope opts)] else [])
           \<and> req_body r =
                (if querystring_stringify nd (createTokenClientCredentials_qs opts) \<noteq> []
                 then Some (querystring_stringify nd (createTokenClientCredentials_qs opts))
                 else None)
           \<and> map_of (req_headers r) ''x-DNA-Token-Attributes'' =
                (if truthy (attributes opts)
                 then Some (JStr (JSON_stringify nd (attributes opts))) else None)"
proof -
  let ?body = "querystring_stringify nd (createTokenClientCredentials_qs opts)"
  let ?opts = "opts\<lparr>grantType := JStr ''client_credentials''\<rparr>"
  have qs: "createTokenClientCredentials_qs opts =
                [(''grant_type'', JStr ''client_credentials'')]
                @ (if truthy (attributes opts) then [(''attributes'', attributes opts)] else [])
                @ (if truthy (scope opts) then [(''scope'', scope opts)] else [])"
    by (simp add: createTokenClientCredentials_qs_def Let_def)
  from assms makeRequest_sent [of nd self "''/tokentypes/client/tokens''" "''POST''" ?body ?opts Called rep]
  obtain r where r: "sent (makeRequest nd self ''POST'' ''/tokentypes/client/tokens'' ?body ?opts Called rep) = Some r"
    and m: "req_method r = ''POST''"
    and b: "req_body r = (if ?body \<noteq> [] then Some ?body else None)"
    and h: "map_of (req_headers r) ''x-DNA-Token-Attributes'' =
              (if truthy (attributes ?opts) then Some (JStr (JSON_stringify nd (attributes ?opts))) else None)"
    by blast
  from r have "sent (createTokenClientCredentials nd self opts rep) = Some r"
    by (simp add: createTokenClientCredentials_def Let_def)
  with m b h qs show ?thesis by simp
qed

theorem client_credentials_request_witness:
  \<open>url_parse_protocol example_node (uri example_spi @ ''/tokentypes/client/tokens'')
      \<in> {JStr ''http:'', JStr ''https:''}
   \<and> (\<exists>r. sent (createTokenClientCredentials example_node example_spi
               (example_options\<lparr>attributes := JObj [(''tier'', JStr ''gold'')]\<rparr>)
               (RespEnd \<lparr>statusCode = 200, headers = [], respData = ''{}''\<rparr>)) = Some r
          \<and> req_method r = ''POST''
          \<and> req_body r = Some ''grant_type=client_credentials&attributes=''
          \<and> map_of (req_headers r) ''x-DNA-Token-Attributes'' = Some (JStr ''{"tier":"gold"}''))\<close>
proof -
  let ?opts = "example_options\<lparr>attributes := JObj [(''tier'', JStr ''gold'')]\<rparr>"
  let ?rep = "RespEnd \<lparr>statusCode = 200, headers = [], respData = ''{}''\<rparr>"
  have p: "url_parse_protocol example_node (uri example_spi @ ''/tokentypes/client/tokens'')
      \<in> {JStr ''http:'', JStr ''https:''}"
    by (simp add: example_node_def example_spi_def)
  have q: "createTokenClientCredentials_qs ?opts
           = [(''grant_type'', JStr ''client_credentials''), (''attributes'', JObj [(''tier'', JStr ''gold'')])]"
    by (simp add: createTokenClientCredentials_qs_def example_options_def)
  have s: "querystring_stringify example_node
             [(''grant_type'', JStr ''client_credentials''), (''attributes'', JObj [(''tier'', JStr ''gold'')])]
           = ''grant_type=client_credentials&attributes=''"
    by (simp add: example_node_def example_stringify_def)
  have j: \<open>JSON_stringify example_node (JObj [(''tier'', JStr ''gold'')]) = ''{"tier":"gold"}''\<close>
    by (simp add: example_node_def)
  have t: "attributes ?opts = JObj [(''tier'', JStr ''gold'')]" by simp
  from client_credentials_request [OF p, of ?opts ?rep] obtain r where
    "sent (createTokenClientCredentials example_node example_spi ?opts ?rep) = Some r"
    "req_method r = ''POST''"
    "req_body r = Some ''grant_type=client_credentials&attributes=''"
    "map_of (req_headers r) ''x-DNA-Token-Attributes'' = Some (JStr (JSON_stringify example_node (JObj [(''tier'', JStr ''gold'')])))"
    unfolding q s t by auto
  with p j show ?thesis by auto
qed

text \<open>
  C10 as stated fails for options that set \<^verbatim>\<open>attributes\<close>: the request carries them in
  the attributes header, and the body has \<^verbatim>\<open>attributes\<close> before \<^verbatim>\<open>scope\<close>.
\<close>

theorem attributes_header_counterexample:
  \<open>sent (createTokenClientCredentials example_node example_spi
      (example_options\<lparr>attributes := JObj [(''tier'', JStr ''gold'')]\<rparr>)
      (RespEnd \<lparr>statusCode = 200, headers = [], respData = ''{}''\<rparr>))
   = Some \<lparr>href = ''https://api.example.com/oauth/tokentypes/client/tokens'',
            req_method = ''POST'',
            req_headers =
              [(''Authorization'', JStr ''Basic aWQ6c2VjcmV0''),
               (''x-DNA-Api-Key'', JStr ''k''),
               (''x-DNA-Token-Attributes'', JStr ''{"tier":"gold"}''),
               (''Content-Type'', JStr ''application/x-www-form-urlencoded'')],
            req_body = Some ''grant_type=client_credentials&attributes=''\<rparr>\<close>
  by (simp add: createTokenClientCredentials_def createTokenClientCredentials_qs_def
        makeRequest_def deliver_def requestComplete_def requestComplete_try_def
        example_node_def example_stringify_def example_spi_def example_options_def lookup_def
        Let_def)

subsection \<open>Context variable propagation\<close>

lemma setFlowVariables_loop_eq:
  "distinct (map fst hs) \<Longrightarrow>
   setFlowVariables_loop hs vars n =
     (case map_of hs (''x-v.'' @ n) of
        None \<Rightarrow> vars n
      | Some v \<Rightarrow> if v \<noteq> [] then Some v else vars n)"
proof (induction hs arbitrary: vars)
  case Nil
  then show ?case by simp
next
  case (Cons h hs)
  obtain k v where h: "h = (k, v)" by (cases h)
  from Cons.prems h have d: "distinct (map fst hs)" and nk: "k \<notin> fst ` set hs" by auto
  define vars1 where "vars1 =
    (if prefix ''x-v.'' k
     then (let varName = drop 4 k in if length v \<noteq> 0 then vars(varName \<mapsto> v) else vars)
     else vars)"
  have step: "setFlowVariables_loop (h # hs) vars n = setFlowVariables_loop hs vars1 n"
    by (simp add: h vars1_def)
  note IH = Cons.IH [OF d, of vars1]
  show ?case
  proof (cases "k = ''x-v.'' @ n")
    case True
    from nk True have none: "map_of hs (''x-v.'' @ n) = None"
      by (simp add: map_of_eq_None_iff)
    from True have "vars1 n = (if v \<noteq> [] then Some v else vars n)"
      by (simp add: vars1_def Let_def)
    with step IH none True h show ?thesis by simp
  next
    case False
    have "prefix ''x-v.'' k \<longrightarrow> drop 4 k \<noteq> n"
    proof (intro impI notI)
      assume pre: "prefix ''x-v.'' k" and "drop 4 k = n"
      with prefix_drop [OF pre] have "k = ''x-v.'' @ n" by simp
      with False show False by contradiction
    qed
    then have "vars1 n = vars n"
      by (auto simp: vars1_def Let_def)
    moreover from False h have "map_of (h # hs) (''x-v.'' @ n) = map_of hs (''x-v.'' @ n)"
      by simp
    ultimately show ?thesis using step IH by (simp only:)
  qed
qed

text \<open>
  C9. Let the header names of a response be distinct, as the keys of an object
  are, and let a request context be supplied. A header \<^verbatim>\<open>x-v.\<close>\<open>n\<close> with a non-empty
  value \<open>v\<close> leaves the variable \<open>n\<close> of the context set to \<open>v\<close>; a header \<^verbatim>\<open>x-v.\<close>\<open>n\<close> with
  an empty value leaves the variable \<open>n\<close> as it was; so does the absence of a
  header \<^verbatim>\<open>x-v.\<close>\<open>n\<close>. Without a request context there is none afterwards.
\<close>

theorem flow_variables:
  assumes "distinct (map fst (headers resp))"
  shows "(\<exists>vars'. setFlowVariables (Some vars) resp = Some vars'
           \<and> (\<forall>(k, v) \<in> set (headers resp).
                 prefix ''x-v.'' k \<and> v \<noteq> [] \<longrightarrow> vars' (drop 4 k) = Some v)
           \<and> (\<forall>(k, v) \<in> set (headers resp).
                 prefix ''x-v.'' k \<and> v = [] \<longrightarrow> vars' (drop 4 k) = vars (drop 4 k))
           \<and> (\<forall>n. ''x-v.'' @ n \<notin> fst ` set (headers resp) \<longrightarrow> vars' n = vars n))
         \<and> setFlowVariables None resp = None"
proof -
  let ?vars' = "setFlowVariables_loop (headers resp) vars"
  have eq: "\<And>n. ?vars' n = (case map_of (headers resp) (''x-v.'' @ n) of
        None \<Rightarrow> vars n | Some v \<Rightarrow> if v \<noteq> [] then Some v else vars n)"
    using assms by (rule setFlowVariables_loop_eq)
  have look: "\<And>k v. (k, v) \<in> set (headers resp) \<Longrightarrow> prefix ''x-v.'' k \<Longrightarrow>
                map_of (headers resp) (''x-v.'' @ drop 4 k) = Some v"
    using assms by (simp only: prefix_drop map_of_is_SomeI)
  have a: "\<forall>(k, v) \<in> set (headers resp). prefix ''x-v.'' k \<and> v \<noteq> [] \<longrightarrow> ?vars' (drop 4 k) = Some v"
    using look by (auto simp: eq)
  have b: "\<forall>(k, v) \<in> set (headers resp). prefix ''x-v.'' k \<and> v = [] \<longrightarrow> ?vars' (drop 4 k) = vars (drop 4 k)"
    using look by (auto simp: eq)
  have c: "\<forall>n. ''x-v.'' @ n \<notin> fst ` set (headers resp) \<longrightarrow> ?vars' n = vars n"
  proof (intro allI impI)
    fix n assume "''x-v.'' @ n \<notin> fst ` set (headers resp)"
    then have "map_of (headers resp) (''x-v.'' @ n) = None"
      by (simp add: map_of_eq_None_iff)
    then show "?vars' n = vars n" by (simp only: eq option.case)
  qed
  from a b c show ?thesis by (simp add: setFlowVariables_def)
qed

theorem flow_variables_witness:
  "distinct (map fst (headers \<lparr>statusCode = 200,
       headers = [(''x-v.sessionId'', ''abc123''), (''x-v.tier'', []), (''content-length'', ''2'')],
       respData = ''{}''\<rparr>))
   \<and> (\<exists>vars'. setFlowVariables (Some [''tier'' \<mapsto> ''gold''])
         \<lparr>statusCode = 200,
          headers = [(''x-v.sessionId'', ''abc123''), (''x-v.tier'', []), (''content-length'', ''2'')],
          respData = ''{}''\<rparr> = Some vars'
        \<and> vars' ''sessionId'' = Some ''abc123''
        \<and> vars' ''tier'' = Some ''gold''
        \<and> vars' ''content-length'' = None)
   \<and> setFlowVariables None
         \<lparr>statusCode = 200,
          headers = [(''x-v.sessionId'', ''abc123''), (''x-v.tier'', []), (''content-length'', ''2'')],
          respData = ''{}''\<rparr> = None"
proof -
  let ?resp = "\<lparr>statusCode = 200,
       headers = [(''x-v.sessionId'', ''abc123''), (''x-v.tier'', []), (''content-length'', ''2'')],
       respData = ''{}''\<rparr>"
  have d: "distinct (map fst (headers ?resp))" by simp
  from flow_variables [OF d, of "[''tier'' \<mapsto> ''gold'']"] d show ?thesis
    by fastforce
qed

subsection \<open>Scope reconciliation\<close>

text \<open>
  C1, as the code has it. Take a verify-token call that passed a callback, whose
  response has status 200 and whose \<^verbatim>\<open>scope\<close> field is absent or occurs once. The
  body is parsed as a query string; the required scopes are the elements of the
  array passed, or the space-split string passed; the granted scopes are the
  space-split \<^verbatim>\<open>scope\<close> field, none when it is absent or empty. If a required scope
  is not granted, the callback receives an error whose message and \<^verbatim>\<open>errorCode\<close>
  are \<^verbatim>\<open>invalid_scope\<close>. If every required scope is granted, the callback receives
  the parsed fields as its result when \<^verbatim>\<open>attributes\<close> is absent or empty, and the
  parsed fields with \<^verbatim>\<open>attributes\<close> replaced by its decoded value when \<^verbatim>\<open>attributes\<close>
  decodes as JSON.
\<close>

theorem verify_scope_reconciliation:
  assumes "statusCode resp = 200"
    and "parsed = querystring_parse nd (respData resp)"
    and "requiredScopes = JArr required ps
         \<or> (requiredScopes = JStr rs \<and> rs \<noteq> [] \<and> required = map JStr (split CHR '' '' rs))
         \<or> (\<not> truthy requiredScopes \<and> required = [])"
    and "lookup parsed ''scope'' = JStr sc \<or> (lookup parsed ''scope'' = JUndefined \<and> sc = [])"
    and "granted = (if sc = [] then [] else map JStr (split CHR '' '' sc))"
  shows "((\<exists>x \<in> set required. x \<notin> set granted) \<longrightarrow>
            verifyRequestComplete nd resp requiredScopes True =
              Called (Some \<lparr>message = JStr ''invalid_scope'', err_statusCode = JUndefined,
                             code = JUndefined, errorCode = JStr ''invalid_scope''\<rparr>) JUndefined)
         \<and> (set required \<subseteq> set granted \<and> \<not> truthy (lookup parsed ''attributes'') \<longrightarrow>
            verifyRequestComplete nd resp requiredScopes True = Called None (JObj parsed))
         \<and> (set required \<subseteq> set granted \<and> truthy (lookup parsed ''attributes'')
              \<and> JSON_parse nd (ToString nd (lookup parsed ''attributes'')) = Some v \<longrightarrow>
            verifyRequestComplete nd resp requiredScopes True =
              Called None (JObj (AList.update ''attributes'' v parsed)))"
proof -
  have r: "(if \<not> isArray requiredScopes
            then (if truthy requiredScopes then split_method requiredScopes else Some [])
            else Some (elements requiredScopes)) = Some required"
    using assms(3) by (cases requiredScopes) auto
  have g: "(if truthy (lookup parsed ''scope'') then split_method (lookup parsed ''scope'')
            else Some []) = Some granted"
    using assms(4,5) by auto
  have v: "verifyRequestComplete nd resp requiredScopes True =
             (if length (difference required granted) > 0 then
                Called (Some ((new_Error ''invalid_scope'')\<lparr>errorCode := JStr ''invalid_scope''\<rparr>))
                  JUndefined
              else if truthy (lookup parsed ''attributes'') then
                (case JSON_parse nd (ToString nd (lookup parsed ''attributes'')) of
                   None \<Rightarrow> Uncaught
                 | Some v \<Rightarrow> Called None (JObj (AList.update ''attributes'' v parsed)))
              else Called None (JObj parsed))"
    unfolding verifyRequestComplete_def Let_def assms(2) [symmetric]
    by (simp only: r g assms(1) option.case if_True) simp
  have d: "length (difference required granted) > 0 \<longleftrightarrow> (\<exists>x \<in> set required. x \<notin> set granted)"
    using difference_empty [of required granted] by auto
  show ?thesis
    unfolding v d by (auto simp: new_Error_def)
qed

theorem verify_scope_reconciliation_witness:
  "verifyRequestComplete example_node \<lparr>statusCode = 200, headers = [], respData = ''scope=read''\<rparr>
       (JArr [JStr ''read'', JStr ''write''] []) True
     = Called (Some \<lparr>message = JStr ''invalid_scope'', err_statusCode = JUndefined,
                      code = JUndefined, errorCode = JStr ''invalid_scope''\<rparr>) JUndefined
   \<and> verifyRequestComplete example_node
       \<lparr>statusCode = 200, headers = [], respData = ''scope=read%20write%20admin''\<rparr>
       (JStr ''read write'') True
     = Called None (JObj [(''scope'', JStr ''read write admin'')])
   \<and> verifyRequestComplete example_node
       \<lparr>statusCode = 200, headers = [], respData = ''scope=read&attributes=%7B%7D''\<rparr>
       (JArr [JStr ''read''] []) True
     = Called None (JObj [(''scope'', JStr ''read''), (''attributes'', JObj [])])"
proof -
  let ?r1 = "\<lparr>statusCode = 200, headers = [], respData = ''scope=read''\<rparr>"
  let ?r2 = "\<lparr>statusCode = 200, headers = [], respData = ''scope=read%20write%20admin''\<rparr>"
  let ?r3 = "\<lparr>statusCode = 200, headers = [], respData = ''scope=read&attributes=%7B%7D''\<rparr>"
  let ?p1 = "[(''scope'', JStr ''read'')]"
  let ?p2 = "[(''scope'', JStr ''read write admin'')]"
  let ?p3 = "[(''scope'', JStr ''read''), (''attributes'', JStr ''{}'')]"
  have s1: "split CHR '' '' ''read'' = [''read'']" by simp
  have s2: "split CHR '' '' ''read write'' = [''read'', ''write'']" by simp
  have s3: "split CHR '' '' ''read write admin'' = [''read'', ''write'', ''admin'']" by simp
  have a: "verifyRequestComplete example_node ?r1 (JArr [JStr ''read'', JStr ''write''] []) True
     = Called (Some \<lparr>message = JStr ''invalid_scope'', err_statusCode = JUndefined,
                      code = JUndefined, errorCode = JStr ''invalid_scope''\<rparr>) JUndefined"
  proof -
    have h1: "statusCode ?r1 = 200" by simp
    have h2: "?p1 = querystring_parse example_node (respData ?r1)" by (simp add: example_node_def)
    have h3: "JArr [JStr ''read'', JStr ''write''] [] = JArr [JStr ''read'', JStr ''write''] []
         \<or> (JArr [JStr ''read'', JStr ''write''] [] = JStr [] \<and> [] \<noteq> []
              \<and> [JStr ''read'', JStr ''write''] = map JStr (split CHR '' '' []))
         \<or> (\<not> truthy (JArr [JStr ''read'', JStr ''write''] []) \<and> [JStr ''read'', JStr ''write''] = [])"
      by simp
    have h4: "lookup ?p1 ''scope'' = JStr ''read'' \<or> (lookup ?p1 ''scope'' = JUndefined \<and> ''read'' = [])"
      by (simp add: lookup_def)
    have h5: "[JStr ''read''] = (if ''read'' = [] then [] else map JStr (split CHR '' '' ''read''))"
      by (simp only: s1) simp
    from verify_scope_reconciliation [OF h1 h2 h3 h4 h5] show ?thesis by simp
  qed
  have b: "verifyRequestComplete example_node ?r2 (JStr ''read write'') True = Called None (JObj ?p2)"
  proof -
    have h1: "statusCode ?r2 = 200" by simp
    have h2: "?p2 = querystring_parse example_node (respData ?r2)" by (simp add: example_node_def)
    have h3: "JStr ''read write'' = JArr [JStr ''read'', JStr ''write''] []
         \<or> (JStr ''read write'' = JStr ''read write'' \<and> ''read write'' \<noteq> []
              \<and> [JStr ''read'', JStr ''write''] = map JStr (split CHR '' '' ''read write''))
         \<or> (\<not> truthy (JStr ''read write'') \<and> [JStr ''read'', JStr ''write''] = [])"
      by (simp only: s2) simp
    have h4: "lookup ?p2 ''scope'' = JStr ''read write admin''
              \<or> (lookup ?p2 ''scope'' = JUndefined \<and> ''read write admin'' = [])"
      by (simp add: lookup_def)
    have h5: "[JStr ''read'', JStr ''write'', JStr ''admin'']
              = (if ''read write admin'' = [] then []
                 else map JStr (split CHR '' '' ''read write admin''))"
      by (simp only: s3) simp
    from verify_scope_reconciliation [OF h1 h2 h3 h4 h5] show ?thesis by (simp add: lookup_def)
  qed
  have c: "verifyRequestComplete example_node ?r3 (JArr [JStr ''read''] []) True
     = Called None (JObj [(''scope'', JStr ''read''), (''attributes'', JObj [])])"
  proof -
    have h1: "statusCode ?r3 = 200" by simp
    have h2: "?p3 = querystring_parse example_node (respData ?r3)" by (simp add: example_node_def)
    have h3: "JArr [JStr ''read''] [] = JArr [JStr ''read''] []
         \<or> (JArr [JStr ''read''] [] = JStr [] \<and> [] \<noteq> []
              \<and> [JStr ''read''] = map JStr (split CHR '' '' []))
         \<or> (\<not> truthy (JArr [JStr ''read''] []) \<and> [JStr ''read''] = [])"
      by simp
    have h4: "lookup ?p3 ''scope'' = JStr ''read'' \<or> (lookup ?p3 ''scope'' = JUndefined \<and> ''read'' = [])"
      by (simp add: lookup_def)
    have h5: "[JStr ''read''] = (if ''read'' = [] then [] else map JStr (split CHR '' '' ''read''))"
      by (simp only: s1) simp
    have j: "JSON_parse example_node (ToString example_node (lookup ?p3 ''attributes'')) = Some (JObj [])"
      by (simp add: example_node_def lookup_def)
    from verify_scope_reconciliation [OF h1 h2 h3 h4 h5, of "JObj []"] j show ?thesis
      by (simp add: lookup_def)
  qed
  from a b c show ?thesis by blast
qed

text \<open>
  C1 as stated fails on two responses with status 200 that grant the required
  scope \<^verbatim>\<open>read\<close>. With \<^verbatim>\<open>attributes=%7B%7D\<close> the result that the callback receives
  has the decoded object under \<^verbatim>\<open>attributes\<close>, where the parsed field is the string
  \<^verbatim>\<open>{}\<close>. With \<^verbatim>\<open>attributes=gold\<close>, which is not JSON, the handler throws and the
  callback receives nothing.
\<close>

theorem verify_attributes_counterexample:
  "querystring_parse example_node ''scope=read&attributes=%7B%7D''
     = [(''scope'', JStr ''read''), (''attributes'', JStr ''{}'')]
   \<and> verifyRequestComplete example_node
       \<lparr>statusCode = 200, headers = [], respData = ''scope=read&attributes=%7B%7D''\<rparr>
       (JArr [JStr ''read''] []) True
     = Called None (JObj [(''scope'', JStr ''read''), (''attributes'', JObj [])])
   \<and> verifyRequestComplete example_node
       \<lparr>statusCode = 200, headers = [], respData = ''scope=read&attributes=gold''\<rparr>
       (JArr [JStr ''read''] []) True
     = Uncaught"
  by (simp add: verifyRequestComplete_def difference_def lookup_def example_node_def)

end
